theory Spec2Isabelle
  imports Complex_Main "HOL-Library.Sublist"
begin

section \<open>Python strings\<close>

text \<open>
  A Python \<open>str\<close> is modelled as a \<open>string\<close> whose characters are the code points
  below 256 (Latin-1), so \<open>length\<close> counts code points as \<open>len\<close> does.  The
  predicates below are \<open>str.isspace\<close>, \<open>str.lower\<close>, \<open>str.strip\<close>,
  \<open>str.endswith\<close> and the operator \<open>in\<close> restricted to that range.
\<close>

definition whitespace_chars :: "char list" where
  "whitespace_chars =
     [CHR 0x09, CHR 0x0A, CHR 0x0B, CHR 0x0C, CHR 0x0D,
      CHR 0x1C, CHR 0x1D, CHR 0x1E, CHR 0x1F, CHR 0x20, CHR 0x85, CHR 0xA0]"

definition isspace :: "char \<Rightarrow> bool" where
  "isspace c = (c \<in> set whitespace_chars)"

definition lower_char :: "char \<Rightarrow> char" where
  "lower_char c =
     (let n = (of_char c :: nat)
      in if (65 \<le> n \<and> n \<le> 90) \<or> (192 \<le> n \<and> n \<le> 222 \<and> n \<noteq> 215)
         then char_of (n + 32) else c)"

definition lower :: "string \<Rightarrow> string" where
  "lower s = map lower_char s"

definition upper_char :: "char \<Rightarrow> char" where
  \<comment> \<open>\<open>str.upper\<close> on the ASCII range, the only one a technical term can match\<close>
  "upper_char c =
     (let n = (of_char c :: nat)
      in if 97 \<le> n \<and> n \<le> 122 then char_of (n - 32) else c)"

definition upper :: "string \<Rightarrow> string" where
  "upper s = map upper_char s"

definition lstrip :: "string \<Rightarrow> string" where
  "lstrip s = dropWhile isspace s"

definition rstrip :: "string \<Rightarrow> string" where
  "rstrip s = rev (dropWhile isspace (rev s))"

definition strip :: "string \<Rightarrow> string" where
  "strip s = rstrip (lstrip s)"

definition endswith :: "string \<Rightarrow> string \<Rightarrow> bool" where
  "endswith s suf = suffix suf s"

fun contains :: "string \<Rightarrow> string \<Rightarrow> bool" where
  \<comment> \<open>\<open>contains s sub\<close> is Python's \<open>sub in s\<close>\<close>
  "contains [] sub = (sub = [])"
| "contains (c # cs) sub = (prefix sub (c # cs) \<or> contains cs sub)"

section \<open>Sender classification (gemini\_conversation\_extractor.py, lines 675--693)\<close>

definition user_indicators :: "string list" where
  "user_indicators = [''user'', ''human'', ''you'']"

definition ai_indicators :: "string list" where
  "ai_indicators = [''ai'', ''assistant'', ''gemini'', ''bot'']"

definition any_indicator :: "string list \<Rightarrow> string \<Rightarrow> string \<Rightarrow> bool" where
  \<comment> \<open>\<open>any(indicator in element_html.lower() or indicator in element_classes.lower()
      for indicator in indicators)\<close>\<close>
  "any_indicator indicators element_html element_classes =
     list_ex (\<lambda>indicator. contains (lower element_html) indicator
                        \<or> contains (lower element_classes) indicator) indicators"

definition guess_by_content :: "string \<Rightarrow> string" where
  \<comment> \<open>the \<open>else\<close> branch: guess from the content pattern\<close>
  "guess_by_content text_content =
     (if endswith (strip text_content) ''?'' \<or> length (strip text_content) < 100
      then ''user'' else ''ai'')"

definition message_type_of :: "string \<Rightarrow> string \<Rightarrow> string \<Rightarrow> string" where
  \<comment> \<open>the chain of lines 682--693; the loop reaches it only for a fragment that passed
      the threshold of line 672, see \<open>extract_message\<close>\<close>
  "message_type_of element_html element_classes text_content =
     (if any_indicator user_indicators element_html element_classes then ''user''
      else if any_indicator ai_indicators element_html element_classes then ''ai''
      else guess_by_content text_content)"

text \<open>
  cli\_gemini\_extractor.py, lines 620--634: the same chain over the markup only, reached
  after the threshold of line 617, see \<open>cli_extract_message\<close>.
\<close>

definition cli_message_type_of :: "string \<Rightarrow> string \<Rightarrow> string" where
  "cli_message_type_of element_html text_content =
     (if list_ex (\<lambda>indicator. contains (lower element_html) indicator) user_indicators
      then ''user''
      else if list_ex (\<lambda>indicator. contains (lower element_html) indicator) ai_indicators
      then ''ai''
      else guess_by_content text_content)"

section \<open>Selector chain and message extraction\<close>

text \<open>
  A page element as Playwright hands it out: its \<open>text_content()\<close> (\<open>None\<close> for
  null), its \<open>inner_html()\<close>, its \<open>class\<close> attribute, the text of its first
  time-stamp child if there is one with text, and the \<open>div\<close> elements below it.
\<close>

datatype element =
  Element (text_content: "string option") (inner_html: string)
          (class_attr: "string option") (timestamp_text: "string option")
          (divs: "element list")

text \<open>A Playwright query returns its matches or raises.\<close>

datatype 'a outcome = Returned 'a | Raised

text \<open>The DOM snapshot, seen through \<open>page.query_selector_all(selector)\<close>.\<close>

type_synonym page = "string \<Rightarrow> element list outcome"

definition message_selectors :: "string list" where
  "message_selectors =
     [''[data-testid*=\"message\"]'', ''[data-testid*=\"chat\"]'', ''.message'',
      ''.chat-message'', ''.conversation-turn'', ''article'', ''.user-message'',
      ''.ai-message'', ''div[role=\"article\"]'', ''div[data-message-id]'']"

definition main_selectors :: "string list" where
  "main_selectors = [''main'', ''.main-content'', ''.conversation'', ''.chat-container'']"

fun try_selectors :: "page \<Rightarrow> string list \<Rightarrow> element list" where
  \<comment> \<open>lines 635--644: the first selector with more than one match wins;
      a query that raises is skipped\<close>
  "try_selectors pg [] = []"
| "try_selectors pg (selector # rest) =
     (case pg selector of
        Raised \<Rightarrow> try_selectors pg rest
      | Returned elements \<Rightarrow>
          if elements \<noteq> [] \<and> length elements > 1 then elements
          else try_selectors pg rest)"

definition substantial_divs :: "element \<Rightarrow> element list" where
  \<comment> \<open>lines 655--660: the divs of the main element with more than 20 characters of text\<close>
  "substantial_divs main_element =
     filter (\<lambda>d. case text_content d of
                    None \<Rightarrow> False
                  | Some text \<Rightarrow> text \<noteq> [] \<and> length (strip text) > 20)
            (divs main_element)"

fun main_content_blocks :: "page \<Rightarrow> string list \<Rightarrow> element list" where
  \<comment> \<open>lines 648--666; \<open>query_selector\<close> is the first match of the selector, and an
      exception ends the search (\<open>except: pass\<close>) with nothing collected\<close>
  "main_content_blocks pg [] = []"
| "main_content_blocks pg (main_selector # rest) =
     (case pg main_selector of
        Raised \<Rightarrow> []
      | Returned [] \<Rightarrow> main_content_blocks pg rest
      | Returned (main_element # _) \<Rightarrow>
          if substantial_divs main_element \<noteq> [] then substantial_divs main_element
          else main_content_blocks pg rest)"

definition find_message_elements :: "page \<Rightarrow> element list" where
  "find_message_elements pg =
     (let message_elements = try_selectors pg message_selectors
      in if message_elements = [] then main_content_blocks pg main_selectors
         else message_elements)"

record message_data =
  md_index :: nat
  md_type :: string
  md_content :: string
  md_timestamp :: string
  md_html :: string

definition html_excerpt :: "string \<Rightarrow> string" where
  \<comment> \<open>\<open>element_html[:500] if len(element_html) < 500 else element_html[:500] + "..."\<close>\<close>
  "html_excerpt element_html =
     (if length element_html < 500 then take 500 element_html
      else take 500 element_html @ ''...'')"

definition extract_message :: "nat \<Rightarrow> element \<Rightarrow> message_data option" where
  \<comment> \<open>lines 669--712: \<open>None\<close> is the \<open>continue\<close> of a fragment below the threshold\<close>
  "extract_message i el =
     (case text_content el of
        None \<Rightarrow> None
      | Some text \<Rightarrow>
          if text = [] \<or> length (strip text) < 10 then None
          else Some \<lparr> md_index = i,
                      md_type = message_type_of (inner_html el)
                                  (case class_attr el of None \<Rightarrow> [] | Some c \<Rightarrow> c) text,
                      md_content = strip text,
                      md_timestamp = (case timestamp_text el of
                                        None \<Rightarrow> [] | Some t \<Rightarrow> strip t),
                      md_html = html_excerpt (inner_html el) \<rparr>)"

definition extract_messages :: "element list \<Rightarrow> message_data list" where
  "extract_messages message_elements =
     List.map_filter (\<lambda>(i, el). extract_message i el)
       (zip [0 ..< length message_elements] message_elements)"

definition extract_conversation_content :: "page \<Rightarrow> message_data list" where
  "extract_conversation_content pg = extract_messages (find_message_elements pg)"


text \<open>
  cli\_gemini\_extractor.py, lines 577--643: six selectors, the divs of \<open>main\<close> as the
  only fallback, and at most the first 50 elements.
\<close>

definition cli_message_selectors :: "string list" where
  "cli_message_selectors =
     [''[data-testid*=\"message\"]'', ''[data-testid*=\"chat\"]'', ''.message'',
      ''.chat-message'', ''article'', ''div[role=\"article\"]'']"

record cli_message_data =
  cm_index :: nat
  cm_type :: string
  cm_content :: string
  cm_length :: nat

definition cli_find_message_elements :: "page \<Rightarrow> element list outcome" where
  \<comment> \<open>the query for \<open>main\<close> is not guarded: if it raises, so does the extraction\<close>
  "cli_find_message_elements pg =
     (let message_elements = try_selectors pg cli_message_selectors
      in if message_elements = [] then
           (case pg ''main'' of
              Raised \<Rightarrow> Raised
            | Returned [] \<Rightarrow> Returned []
            | Returned (main_element # _) \<Rightarrow> Returned (substantial_divs main_element))
         else Returned message_elements)"

definition cli_extract_message :: "nat \<Rightarrow> element \<Rightarrow> cli_message_data option" where
  "cli_extract_message i el =
     (case text_content el of
        None \<Rightarrow> None
      | Some text \<Rightarrow>
          if text = [] \<or> length (strip text) < 10 then None
          else Some \<lparr> cm_index = i,
                      cm_type = cli_message_type_of (inner_html el) text,
                      cm_content = strip text,
                      cm_length = length (strip text) \<rparr>)"

definition cli_extract_conversation :: "page \<Rightarrow> cli_message_data list outcome" where
  "cli_extract_conversation pg =
     (case cli_find_message_elements pg of
        Raised \<Rightarrow> Raised
      | Returned message_elements \<Rightarrow>
          Returned (List.map_filter (\<lambda>(i, el). cli_extract_message i el)
                      (zip [0 ..< length (take 50 message_elements)]
                           (take 50 message_elements))))"

section \<open>Regular expressions used by the analyzer and the normalizer\<close>

text \<open>
  \<open>re.findall\<close> and \<open>re.sub\<close> scan the subject from left to right; at each position
  not inside the previous match the pattern is tried, and a match of length \<open>n\<close>
  (never empty for the patterns of this program) is consumed.  A pattern is given by
  its matcher: from the character in front of the position (for \<open>\b\<close>) and the rest of
  the subject it returns the length of the match at this position.
\<close>

type_synonym matcher = "char option \<Rightarrow> string \<Rightarrow> nat option"

fun findall_scan :: "matcher \<Rightarrow> char option \<Rightarrow> nat \<Rightarrow> string \<Rightarrow> string list" where
  "findall_scan m prev skip [] = []"
| "findall_scan m prev skip (c # cs) =
     (if skip > 0 then findall_scan m (Some c) (skip - 1) cs
      else (case m prev (c # cs) of
              None \<Rightarrow> findall_scan m (Some c) 0 cs
            | Some n \<Rightarrow> take n (c # cs) # findall_scan m (Some c) (n - 1) cs))"

definition findall :: "matcher \<Rightarrow> string \<Rightarrow> string list" where
  "findall m s = findall_scan m None 0 s"

fun sub_scan :: "matcher \<Rightarrow> string \<Rightarrow> char option \<Rightarrow> nat \<Rightarrow> string \<Rightarrow> string" where
  "sub_scan m repl prev skip [] = []"
| "sub_scan m repl prev skip (c # cs) =
     (if skip > 0 then sub_scan m repl (Some c) (skip - 1) cs
      else (case m prev (c # cs) of
              None \<Rightarrow> c # sub_scan m repl (Some c) 0 cs
            | Some n \<Rightarrow> repl @ sub_scan m repl (Some c) (n - 1) cs))"

definition re_sub :: "matcher \<Rightarrow> string \<Rightarrow> string \<Rightarrow> string" where
  "re_sub m repl s = sub_scan m repl None 0 s"

fun find_sub :: "string \<Rightarrow> string \<Rightarrow> nat option" where
  \<comment> \<open>the index of the first occurrence of \<open>sub\<close>\<close>
  "find_sub sub [] = (if sub = [] then Some 0 else None)"
| "find_sub sub (c # cs) =
     (if prefix sub (c # cs) then Some 0 else map_option Suc (find_sub sub cs))"

definition match_delimited :: "string \<Rightarrow> string \<Rightarrow> matcher" where
  \<comment> \<open>\<open>open[\s\S]*?close\<close>: the lazy star stops at the first closing delimiter\<close>
  "match_delimited opening closing prev s =
     (if prefix opening s
      then map_option (\<lambda>j. length opening + j + length closing)
             (find_sub closing (drop (length opening) s))
      else None)"

definition match_enclosed :: "char \<Rightarrow> char \<Rightarrow> matcher" where
  \<comment> \<open>\<open>o[^c]+c\<close>: one or more characters other than \<open>c\<close> between \<open>o\<close> and \<open>c\<close>\<close>
  "match_enclosed opening closing prev s =
     (case s of
        [] \<Rightarrow> None
      | c # rest \<Rightarrow>
          if c = opening then
            (let run = takeWhile (\<lambda>x. x \<noteq> closing) rest
             in if run \<noteq> [] \<and> length run < length rest then Some (length run + 2)
                else None)
          else None)"

definition match_whitespace :: matcher where
  \<comment> \<open>\<open>\s+\<close>\<close>
  "match_whitespace prev s =
     (if takeWhile isspace s = [] then None else Some (length (takeWhile isspace s)))"

definition is_word_char :: "char \<Rightarrow> bool" where
  \<comment> \<open>\<open>\w\<close> for a \<open>str\<close> pattern: alphanumeric or underscore\<close>
  "is_word_char c =
     (let n = (of_char c :: nat)
      in (48 \<le> n \<and> n \<le> 57) \<or> (65 \<le> n \<and> n \<le> 90) \<or> n = 95 \<or> (97 \<le> n \<and> n \<le> 122)
         \<or> n \<in> set [170, 178, 179, 181, 185, 186, 188, 189, 190]
         \<or> (192 \<le> n \<and> n \<noteq> 215 \<and> n \<noteq> 247))"

definition word_boundary :: "char option \<Rightarrow> char option \<Rightarrow> bool" where
  \<comment> \<open>\<open>\b\<close> between two neighbouring characters (\<open>None\<close> at either end of the subject)\<close>
  "word_boundary prev after =
     ((case prev of None \<Rightarrow> False | Some c \<Rightarrow> is_word_char c)
      \<noteq> (case after of None \<Rightarrow> False | Some c \<Rightarrow> is_word_char c))"

definition char_at :: "string \<Rightarrow> nat \<Rightarrow> char option" where
  "char_at s i = (if i < length s then Some (s ! i) else None)"

definition alternative_matches :: "string \<Rightarrow> string \<Rightarrow> bool" where
  \<comment> \<open>the literal \<open>alt\<close>, ignoring case, followed by \<open>\b\<close>\<close>
  "alternative_matches s alt =
     (alt \<noteq> [] \<and> length alt \<le> length s \<and> lower (take (length alt) s) = lower alt
      \<and> word_boundary (char_at s (length alt - 1)) (char_at s (length alt)))"

definition match_word_alternatives :: "string list \<Rightarrow> matcher" where
  \<comment> \<open>\<open>\b(?:alt1|alt2|...)\b\<close> with \<open>re.IGNORECASE\<close>: the first alternative, in the
      order written, that matches between two word boundaries\<close>
  "match_word_alternatives alts prev s =
     (if word_boundary prev (char_at s 0)
      then map_option length (List.find (alternative_matches s) alts)
      else None)"


section \<open>Conversation analyzer (conversation\_analyzer.py)\<close>

text \<open>
  The persisted conversation, as \<open>json.load\<close> returns it: every key may be missing,
  which \<open>dict.get\<close> replaces by a default.
\<close>

record message =
  msg_id :: "string option"
  msg_sender :: "string option"
  msg_content :: "string option"
  msg_timestamp :: "string option"
  msg_type :: "string option"

record conversation =
  title :: "string option"
  url :: "string option"
  extracted_at :: "string option"
  message_count :: "int option"
  messages :: "message list option"

definition get :: "'a option \<Rightarrow> 'a \<Rightarrow> 'a" where
  \<comment> \<open>\<open>d.get(key, default)\<close> on the looked-up field\<close>
  "get field dflt = (case field of None \<Rightarrow> dflt | Some v \<Rightarrow> v)"

text \<open>
  The analysis dictionary.  The keys \<open>median_message_length\<close>, \<open>max_message_length\<close>
  and \<open>min_message_length\<close> exist only when there is a message (\<open>None\<close>: no such key).
  Means, medians and ratios are exact rationals; Python rounds them to doubles, which
  orders them in the same way against the thresholds below as long as counts and
  lengths stay under \<open>2^50\<close>.
\<close>

record analysis =
  a_title :: string
  a_url :: string
  a_extracted_at :: string
  total_messages :: int
  user_messages :: nat
  assistant_messages :: nat
  message_lengths :: "nat list"
  topics_mentioned :: "string list"
  code_blocks :: nat
  questions_asked :: nat
  avg_message_length :: rat
  conversation_flow :: "(string \<times> nat \<times> string) list"
  technical_terms :: "string list"
  key_insights :: "string list"
  median_message_length :: "rat option"
  max_message_length :: "nat option"
  min_message_length :: "nat option"
  unique_technical_terms :: "string list"
  unique_topics :: "string list"

definition technical_patterns :: "string list list" where
  "technical_patterns =
     [[''API'', ''SDK'', ''CLI'', ''JWT'', ''OAuth'', ''HTTP'', ''HTTPS'', ''REST'',
       ''GraphQL'', ''JSON'', ''XML'', ''YAML'', ''SQL'', ''NoSQL''],
      [''Docker'', ''Kubernetes'', ''AWS'', ''GCP'', ''Azure'', ''GitHub'', ''GitLab'',
       ''CI/CD''],
      [''Python'', ''JavaScript'', ''TypeScript'', ''Java'', ''C++'', ''Rust'', ''Go'',
       ''Ruby'', ''PHP''],
      [''React'', ''Vue'', ''Angular'', ''Node.js'', ''Express'', ''Django'', ''Flask'',
       ''FastAPI''],
      [''MongoDB'', ''PostgreSQL'', ''MySQL'', ''Redis'', ''Elasticsearch'', ''Kafka''],
      [''Playwright'', ''Selenium'', ''Puppeteer'', ''Cypress''],
      [''AI'', ''ML'', ''LLM'', ''NLP'', ''GPT'', ''BERT'', ''Transformer''],
      [''IoC'', ''DI'', ''MVC'', ''MVP'', ''MVVM'', ''SOLID'', ''DRY'', ''KISS'']]"

definition extract_technical_terms :: "string \<Rightarrow> string list" where
  "extract_technical_terms content =
     concat (map (\<lambda>pattern. map upper (findall (match_word_alternatives pattern) content))
               technical_patterns)"

definition topic_keywords :: "(string \<times> string list) list" where
  "topic_keywords =
     [(''authentication'', [''auth'', ''login'', ''token'', ''jwt'', ''oauth'', ''credential'']),
      (''automation'', [''playwright'', ''selenium'', ''automation'', ''script'', ''bot'']),
      (''architecture'', [''architecture'', ''design'', ''pattern'', ''structure'', ''component'']),
      (''deployment'', [''deploy'', ''deployment'', ''docker'', ''kubernetes'', ''container'']),
      (''database'', [''database'', ''sql'', ''nosql'', ''mongodb'', ''postgresql'', ''redis'']),
      (''api'', [''api'', ''endpoint'', ''rest'', ''graphql'', ''service'', ''microservice'']),
      (''frontend'', [''frontend'', ''ui'', ''react'', ''vue'', ''angular'', ''javascript'']),
      (''backend'', [''backend'', ''server'', ''node'', ''python'', ''django'', ''flask'']),
      (''testing'', [''test'', ''testing'', ''unit'', ''integration'', ''e2e'', ''cypress'']),
      (''security'', [''security'', ''encryption'', ''ssl'', ''tls'', ''vulnerability'']),
      (''performance'', [''performance'', ''optimization'', ''cache'', ''speed'', ''latency'']),
      (''monitoring'', [''monitoring'', ''logging'', ''metrics'', ''observability'', ''alert''])]"

definition extract_topics :: "string \<Rightarrow> string list" where
  "extract_topics content =
     map fst (filter (\<lambda>(topic, keywords). list_ex (contains (lower content)) keywords)
                topic_keywords)"

definition count_code_blocks :: "string \<Rightarrow> nat" where
  \<comment> \<open>the three \<open>code_patterns\<close>: fenced blocks, inline code, HTML code tags\<close>
  "count_code_blocks content =
     length (findall (match_delimited ''```'' ''```'') content)
     + length (findall (match_enclosed (CHR ''`'') (CHR ''`'')) content)
     + length (findall (match_delimited ''<code>'' ''</code>'') content)"

definition count_char :: "char \<Rightarrow> string \<Rightarrow> nat" where
  "count_char c s = length (filter (\<lambda>x. x = c) s)"

definition analyze_message :: "analysis \<Rightarrow> message \<Rightarrow> analysis" where
  \<comment> \<open>the body of the loop over the messages, lines 42--77\<close>
  "analyze_message an msg =
     (let sender = get (msg_sender msg) ''unknown'';
          content = get (msg_content msg) [];
          msg_length = length content;
          an1 = an \<lparr> message_lengths := message_lengths an @ [msg_length],
                     conversation_flow := conversation_flow an
                        @ [(sender, msg_length, get (msg_timestamp msg) [])] \<rparr>;
          an2 = (if sender = ''user''
                 then an1 \<lparr> user_messages := user_messages an1 + 1,
                            questions_asked :=
                              (if CHR ''?'' \<in> set content
                               then questions_asked an1 + count_char (CHR ''?'') content
                               else questions_asked an1) \<rparr>
                 else if sender = ''assistant''
                 then an1 \<lparr> assistant_messages := assistant_messages an1 + 1 \<rparr>
                 else an1)
      in an2 \<lparr> code_blocks := code_blocks an2 + count_code_blocks content,
               technical_terms := technical_terms an2 @ extract_technical_terms content,
               topics_mentioned := topics_mentioned an2 @ extract_topics content \<rparr>)"

definition mean :: "nat list \<Rightarrow> rat" where
  \<comment> \<open>\<open>statistics.mean\<close> of a non-empty list\<close>
  "mean xs = of_nat (sum_list xs) / of_nat (length xs)"

definition median :: "nat list \<Rightarrow> rat" where
  \<comment> \<open>\<open>statistics.median\<close> of a non-empty list\<close>
  "median xs =
     (let data = sort xs; n = length data
      in if n mod 2 = 1 then of_nat (data ! (n div 2))
         else (of_nat (data ! (n div 2 - 1)) + of_nat (data ! (n div 2))) / 2)"

definition generate_insights :: "analysis \<Rightarrow> string list" where
  "generate_insights an =
     (let total_msgs = total_messages an;
          user_ratio = (of_nat (user_messages an) :: rat) / of_int total_msgs;
          unique_terms = length (unique_technical_terms an);
          avg_length = avg_message_length an
      in (if total_msgs > 0
          then (if user_ratio > 6 / 10
                then [''User-driven conversation with many questions'']
                else if user_ratio < 3 / 10
                then [''Assistant-heavy conversation with detailed responses'']
                else [''Balanced conversation between user and assistant''])
          else [])
         @ (if unique_terms > 10
            then [''Highly technical conversation with diverse technologies'']
            else if unique_terms > 5 then [''Moderately technical discussion'']
            else [''General or non-technical conversation''])
         @ (if code_blocks an > 5
            then [''Code-heavy conversation with examples and implementations'']
            else if code_blocks an > 0
            then [''Contains code examples and technical details'']
            else [])
         @ (if questions_asked an > 5
            then [''Exploratory conversation with many questions'']
            else [])
         @ (if avg_length > 1000
            then [''Detailed conversation with comprehensive responses'']
            else if avg_length < 200
            then [''Concise conversation with brief exchanges'']
            else []))"

definition initial_analysis :: "conversation \<Rightarrow> analysis" where
  \<comment> \<open>lines 23--38\<close>
  "initial_analysis data =
     \<lparr> a_title = get (title data) ''Unknown'',
       a_url = get (url data) [],
       a_extracted_at = get (extracted_at data) [],
       total_messages = get (message_count data) 0,
       user_messages = 0,
       assistant_messages = 0,
       message_lengths = [],
       topics_mentioned = [],
       code_blocks = 0,
       questions_asked = 0,
       avg_message_length = 0,
       conversation_flow = [],
       technical_terms = [],
       key_insights = [],
       median_message_length = None,
       max_message_length = None,
       min_message_length = None,
       unique_technical_terms = [],
       unique_topics = [] \<rparr>"

text \<open>
  \<open>list(set(xs))\<close> lists the distinct members of \<open>xs\<close> in the iteration order of a
  Python set.  The language leaves that order open and CPython derives it from string
  hashes seeded per interpreter process, so it is a parameter \<open>list_of_set\<close> of the
  analyzer; \<open>set_listing\<close> is all that Python promises about it.
\<close>

definition set_listing :: "(string list \<Rightarrow> string list) \<Rightarrow> bool" where
  "set_listing list_of_set =
     (\<forall>xs. set (list_of_set xs) = set xs \<and> distinct (list_of_set xs))"

definition analyze_conversation ::
  "(string list \<Rightarrow> string list) \<Rightarrow> conversation \<Rightarrow> analysis" where
  "analyze_conversation list_of_set data =
     (let an = foldl analyze_message (initial_analysis data) (get (messages data) []);
          an1 = (if message_lengths an \<noteq> []
                 then an \<lparr> avg_message_length := mean (message_lengths an),
                           median_message_length := Some (median (message_lengths an)),
                           max_message_length := Some (Max (set (message_lengths an))),
                           min_message_length := Some (Min (set (message_lengths an))) \<rparr>
                 else an);
          an2 = an1 \<lparr> unique_technical_terms := list_of_set (technical_terms an1),
                       unique_topics := list_of_set (topics_mentioned an1) \<rparr>
      in an2 \<lparr> key_insights := generate_insights an2 \<rparr>)"

section \<open>Corpus summary (generate\_summary\_report)\<close>

text \<open>
  \<open>collections.Counter\<close> keeps its keys in first-seen order; \<open>most_common(n)\<close> is
  \<open>sorted(items, key=count, reverse=True)[:n]\<close>, a stable sort.
\<close>

fun counter_add :: "string \<Rightarrow> (string \<times> nat) list \<Rightarrow> (string \<times> nat) list" where
  "counter_add x [] = [(x, 1)]"
| "counter_add x ((y, n) # rest) =
     (if x = y then (y, n + 1) # rest else (y, n) # counter_add x rest)"

definition Counter :: "string list \<Rightarrow> (string \<times> nat) list" where
  "Counter xs = foldl (\<lambda>c x. counter_add x c) [] xs"

definition most_common :: "nat \<Rightarrow> (string \<times> nat) list \<Rightarrow> (string \<times> nat) list" where
  "most_common n counts = take n (sort_key (\<lambda>(x, k). - int k) counts)"

text \<open>The values of the summary dictionary.\<close>

datatype pyval =
  PyInt int | PyFloat rat | PyStrings "string list" | PyRanking "(string \<times> nat) list"

definition term_frequency :: "analysis list \<Rightarrow> (string \<times> nat) list" where
  "term_frequency analyses = Counter (concat (map unique_technical_terms analyses))"

definition topic_frequency :: "analysis list \<Rightarrow> (string \<times> nat) list" where
  "topic_frequency analyses = Counter (concat (map unique_topics analyses))"

definition insight_frequency :: "analysis list \<Rightarrow> (string \<times> nat) list" where
  "insight_frequency analyses = Counter (concat (map key_insights analyses))"

definition generate_summary_report :: "analysis list \<Rightarrow> (string \<times> pyval) list" where
  \<comment> \<open>the dictionary returned, as its items in insertion order; \<open>[]\<close> is \<open>{}\<close>\<close>
  "generate_summary_report analyses =
     (if analyses = [] then []
      else
        (let total_conversations = int (length analyses);
             total_msgs = sum_list (map total_messages analyses);
             total_user_messages = sum_list (map user_messages analyses);
             total_assistant_messages = sum_list (map assistant_messages analyses)
         in [(''total_conversations'', PyInt total_conversations),
             (''total_messages'', PyInt total_msgs),
             (''total_user_messages'', PyInt (int total_user_messages)),
             (''total_assistant_messages'', PyInt (int total_assistant_messages)),
             (''avg_messages_per_conversation'',
                if total_conversations > 0
                then PyFloat (of_int total_msgs / of_int total_conversations)
                else PyInt 0),
             (''most_common_technical_terms'',
                PyRanking (most_common 10 (term_frequency analyses))),
             (''most_common_topics'', PyRanking (most_common 10 (topic_frequency analyses))),
             (''most_common_insights'',
                PyRanking (most_common 5 (insight_frequency analyses))),
             (''conversation_titles'', PyStrings (map a_title analyses))]))"


section \<open>Structured extraction (enhanced\_gemini\_extractor.py)\<close>

text \<open>
  The tree BeautifulSoup builds from the snapshot: tags with attributes, and strings.
  \<open>Text\<close> is a string of the class \<open>NavigableString\<close>; \<open>Special\<close> is a string of
  a class of its own, which the parser gives to a comment and to the text inside a
  \<open>script\<close>, \<open>style\<close>, \<open>template\<close>, \<open>rt\<close> or \<open>rp\<close> element.
\<close>

datatype node =
  Tag string "(string \<times> string) list" "node list" | Text string | Special string

fun descendants :: "node \<Rightarrow> node list" where
  \<comment> \<open>in document order\<close>
  "descendants (Text s) = []"
| "descendants (Special s) = []"
| "descendants (Tag name attrs children) = concat (map (\<lambda>c. c # descendants c) children)"

fun attr :: "node \<Rightarrow> string \<Rightarrow> string option" where
  "attr (Text s) key = None"
| "attr (Special s) key = None"
| "attr (Tag name attrs children) key = map_of attrs key"

fun has_name :: "string \<Rightarrow> node \<Rightarrow> bool" where
  "has_name wanted (Text s) = False"
| "has_name wanted (Special s) = False"
| "has_name wanted (Tag name attrs children) = (name = wanted)"

fun words_from :: "string \<Rightarrow> string \<Rightarrow> string list" where
  \<comment> \<open>the whitespace-separated tokens of a multi-valued attribute\<close>
  "words_from cur [] = (if cur = [] then [] else [cur])"
| "words_from cur (c # cs) =
     (if isspace c then (if cur = [] then words_from [] cs else cur # words_from [] cs)
      else words_from (cur @ [c]) cs)"

definition has_class :: "string \<Rightarrow> node \<Rightarrow> bool" where
  "has_class wanted n =
     (case attr n ''class'' of
        None \<Rightarrow> False
      | Some v \<Rightarrow> wanted \<in> set (words_from [] v))"

definition find_all :: "node \<Rightarrow> (node \<Rightarrow> bool) \<Rightarrow> node list" where
  "find_all n wanted = filter wanted (descendants n)"

definition find_first :: "node \<Rightarrow> (node \<Rightarrow> bool) \<Rightarrow> node option" where
  \<comment> \<open>\<open>find\<close>: the first of \<open>find_all\<close>, or \<open>None\<close>\<close>
  "find_first n wanted = (case find_all n wanted of [] \<Rightarrow> None | x # _ \<Rightarrow> Some x)"

definition string_containers :: "string list" where
  \<comment> \<open>the elements whose text the parser gives a class of its own\<close>
  "string_containers = [''rt'', ''rp'', ''style'', ''script'', ''template'']"

fun all_strings :: "node \<Rightarrow> string list" where
  \<comment> \<open>the strings \<open>get_text\<close> collects below an ordinary element (the program calls it
      on \<open>p\<close> and time-stamp elements only): those of the class \<open>NavigableString\<close>,
      which leaves out comments and the content of the string containers\<close>
  "all_strings (Text s) = [s]"
| "all_strings (Special s) = []"
| "all_strings (Tag name attrs children) =
     (if name \<in> set string_containers then [] else concat (map all_strings children))"

definition get_text_stripped :: "node \<Rightarrow> string" where
  \<comment> \<open>\<open>get_text(strip=True)\<close>: the stripped, non-empty strings, joined\<close>
  "get_text_stripped n = concat (filter (\<lambda>t. t \<noteq> []) (map strip (all_strings n)))"

fun join :: "string \<Rightarrow> string list \<Rightarrow> string" where
  "join sep [] = []"
| "join sep [x] = x"
| "join sep (x # y # rest) = x @ sep @ join sep (y # rest)"

definition extract_user_message :: "node \<Rightarrow> string option" where
  "extract_user_message user_query_element =
     (let query_texts =
            filter (\<lambda>text. text \<noteq> [] \<and> text \<notin> set [[], [CHR 0x0A]])
              (map get_text_stripped
                 (find_all user_query_element
                    (\<lambda>n. has_name ''p'' n \<and> has_class ''query-text-line'' n)))
      in if query_texts \<noteq> [] then Some (join [CHR 0x0A] query_texts) else None)"

text \<open>
  What the extractor takes from outside the repository: the MarkItDown converter
  (absent when the package is not installed; \<open>None\<close> as its result stands for any
  exception inside the \<open>try\<close> block), BeautifulSoup's serialisation \<open>str(element)\<close>,
  the two \<open>datetime\<close> parsers (\<open>None\<close> when they raise) and the wall clock.
\<close>

record runtime =
  markitdown :: "(string \<Rightarrow> string option) option"
  to_str :: "node \<Rightarrow> string"
  fromisoformat :: "string \<Rightarrow> string option"
  strptime :: "string \<Rightarrow> string \<Rightarrow> string option"
  now :: string

definition remove_tags :: "string \<Rightarrow> string" where
  \<comment> \<open>\<open>re.sub(r'<[^>]+>', '', content)\<close>\<close>
  "remove_tags content = re_sub (match_enclosed (CHR ''<'') (CHR ''>'')) [] content"

definition html_to_text :: "string \<Rightarrow> string" where
  \<comment> \<open>lines 149--155, the fallback: remove tags, normalize whitespace, strip\<close>
  "html_to_text content = strip (re_sub match_whitespace '' '' (remove_tags content))"

definition html_to_markdown :: "runtime \<Rightarrow> node \<Rightarrow> string" where
  "html_to_markdown rt el =
     (case markitdown rt of
        None \<Rightarrow> html_to_text (to_str rt el)
      | Some convert \<Rightarrow>
          (case convert (''<html><body>'' @ to_str rt el @ ''</body></html>'') of
             Some converted \<Rightarrow> strip converted
           | None \<Rightarrow> html_to_text (to_str rt el)))"

fun decompose_all :: "string list \<Rightarrow> node \<Rightarrow> node" where
  \<comment> \<open>the tree after \<open>decompose()\<close> of every descendant tag with one of the names\<close>
  "decompose_all names (Text s) = Text s"
| "decompose_all names (Special s) = Special s"
| "decompose_all names (Tag name attrs children) =
     Tag name attrs
       (map (decompose_all names)
          (filter (\<lambda>c. \<not> list_ex (\<lambda>nm. has_name nm c) names) children))"

definition clean_response_content :: "runtime \<Rightarrow> node \<Rightarrow> string" where
  "clean_response_content rt markdown_element =
     html_to_markdown rt (decompose_all [''script'', ''style''] markdown_element)"

definition extract_model_response :: "runtime \<Rightarrow> node \<Rightarrow> string option" where
  "extract_model_response rt model_response_element =
     (case find_first model_response_element (has_name ''message-content'') of
        None \<Rightarrow> None
      | Some message_content \<Rightarrow>
          (case find_first message_content
                  (\<lambda>n. has_name ''div'' n \<and> has_class ''markdown'' n) of
             Some markdown_div \<Rightarrow> Some (clean_response_content rt markdown_div)
           | None \<Rightarrow> None))"

definition timestamp_selectors :: "string list" where
  "timestamp_selectors =
     [''time'', ''[data-timestamp]'', ''.timestamp'', ''.message-time'', ''[datetime]'']"

definition timestamp_formats :: "string list" where
  "timestamp_formats = [''%Y-%m-%d %H:%M:%S'', ''%Y-%m-%dT%H:%M:%S'', ''%m/%d/%Y %H:%M'']"

definition replace_Z :: "string \<Rightarrow> string" where
  \<comment> \<open>\<open>timestamp.replace('Z', '+00:00')\<close>\<close>
  "replace_Z s = concat (map (\<lambda>c. if c = CHR ''Z'' then ''+00:00'' else [c]) s)"

fun first_parse :: "runtime \<Rightarrow> string \<Rightarrow> string list \<Rightarrow> string option" where
  "first_parse rt text [] = None"
| "first_parse rt text (fmt # fmts) =
     (case strptime rt text fmt of Some t \<Rightarrow> Some t | None \<Rightarrow> first_parse rt text fmts)"

definition timestamp_of_element :: "runtime \<Rightarrow> node \<Rightarrow> string option" where
  "timestamp_of_element rt timestamp_elem =
     (let timestamp = (case attr timestamp_elem ''datetime'' of
                         Some v \<Rightarrow> if v \<noteq> [] then Some v else attr timestamp_elem ''data-timestamp''
                       | None \<Rightarrow> attr timestamp_elem ''data-timestamp'');
          parsed = (case timestamp of
                      Some v \<Rightarrow> if v \<noteq> [] then fromisoformat rt (replace_Z v) else None
                    | None \<Rightarrow> None)
      in case parsed of
           Some t \<Rightarrow> Some t
         | None \<Rightarrow>
             (let text = get_text_stripped timestamp_elem
              in if text \<noteq> [] then first_parse rt text timestamp_formats else None))"

fun timestamp_from :: "runtime \<Rightarrow> node \<Rightarrow> string list \<Rightarrow> string" where
  "timestamp_from rt container [] = now rt"
| "timestamp_from rt container (selector # rest) =
     (case find_first container (has_name selector) of
        None \<Rightarrow> timestamp_from rt container rest
      | Some timestamp_elem \<Rightarrow>
          (case timestamp_of_element rt timestamp_elem of
             Some t \<Rightarrow> t
           | None \<Rightarrow> timestamp_from rt container rest))"

definition extract_timestamp :: "runtime \<Rightarrow> node \<Rightarrow> string" where
  "extract_timestamp rt container = timestamp_from rt container timestamp_selectors"

definition container_messages :: "runtime \<Rightarrow> node \<Rightarrow> message list" where
  \<comment> \<open>the body of the loop over the containers, lines 58--84\<close>
  "container_messages rt container =
     (let message_id = get (attr container ''id'') []
      in (case find_first container (has_name ''user-query'') of
            None \<Rightarrow> []
          | Some user_query \<Rightarrow>
              (case extract_user_message user_query of
                 None \<Rightarrow> []
               | Some query_text \<Rightarrow>
                   if query_text = [] then []
                   else [\<lparr> msg_id = Some message_id, msg_sender = Some ''user'',
                           msg_content = Some query_text,
                           msg_timestamp = Some (extract_timestamp rt container),
                           msg_type = Some ''user_message'' \<rparr>]))
         @ (case find_first container (has_name ''model-response'') of
              None \<Rightarrow> []
            | Some model_response \<Rightarrow>
                (case extract_model_response rt model_response of
                   None \<Rightarrow> []
                 | Some response_content \<Rightarrow>
                     if response_content = [] then []
                     else [\<lparr> msg_id = Some message_id, msg_sender = Some ''assistant'',
                             msg_content = Some response_content,
                             msg_timestamp = Some (extract_timestamp rt container),
                             msg_type = Some ''assistant_message'' \<rparr>])))"

definition conversation_containers :: "node \<Rightarrow> node list" where
  \<comment> \<open>\<open>soup.find_all('div', class_='conversation-container')\<close>\<close>
  "conversation_containers soup =
     find_all soup (\<lambda>n. has_name ''div'' n \<and> has_class ''conversation-container'' n)"

definition parse_conversation_structure :: "runtime \<Rightarrow> node \<Rightarrow> message list" where
  "parse_conversation_structure rt soup =
     concat (map (container_messages rt) (conversation_containers soup))"

definition structured_data :: "runtime \<Rightarrow> message list \<Rightarrow> string \<Rightarrow> string \<Rightarrow> conversation" where
  \<comment> \<open>lines 275--281 of \<open>save_structured_conversation\<close>\<close>
  "structured_data rt msgs ttl u =
     \<lparr> title = Some ttl, url = Some u, extracted_at = Some (now rt),
       message_count = Some (int (length msgs)), messages = Some msgs \<rparr>"


section \<open>Vocabulary of the properties and example inputs\<close>

definition multiple_matches :: "page \<Rightarrow> string \<Rightarrow> bool" where
  \<comment> \<open>the selector's query returns more than one element\<close>
  "multiple_matches pg selector =
     (case pg selector of Raised \<Rightarrow> False | Returned elements \<Rightarrow> length elements > 1)"

definition matches_of :: "page \<Rightarrow> string \<Rightarrow> element list" where
  "matches_of pg selector =
     (case pg selector of Raised \<Rightarrow> [] | Returned elements \<Rightarrow> elements)"

definition nontrivial_texts :: "element list \<Rightarrow> string list" where
  \<comment> \<open>the stripped texts of at least 10 characters, in the order of the elements\<close>
  "nontrivial_texts els =
     map strip (filter (\<lambda>text. text \<noteq> [] \<and> 10 \<le> length (strip text))
                  (List.map_filter text_content els))"

definition leaf :: "string \<Rightarrow> element" where
  \<comment> \<open>an element holding only text, without class attribute or time stamp\<close>
  "leaf text = Element (Some text) text None None []"

definition short_first_page :: page where
  \<comment> \<open>two one-word matches for the first selector, two full messages for the third\<close>
  "short_first_page selector =
     (if selector = ''[data-testid*=\"message\"]'' then Returned [leaf ''Hi'', leaf ''OK'']
      else if selector = ''.message''
      then Returned [leaf ''What is inversion of control?'',
                     leaf ''Inversion of control is a design principle.'']
      else Returned [])"

definition long_answer :: string where
  \<comment> \<open>400 characters without a question mark\<close>
  "long_answer = ''Here is the implementation'' @ replicate 374 (CHR ''.'')"


definition sender_of :: "message \<Rightarrow> string" where
  \<comment> \<open>\<open>msg.get("sender", "unknown")\<close>\<close>
  "sender_of msg = get (msg_sender msg) ''unknown''"

definition empty_conversation :: conversation where
  "empty_conversation =
     \<lparr> title = Some ''Empty'', url = Some [], extracted_at = Some [],
       message_count = Some 0, messages = Some [] \<rparr>"

definition plain_message :: "string option \<Rightarrow> string \<Rightarrow> message" where
  "plain_message sender content =
     \<lparr> msg_id = Some [], msg_sender = sender, msg_content = Some content,
       msg_timestamp = Some [], msg_type = None \<rparr>"

definition three_senders :: conversation where
  \<comment> \<open>one message of each kind: user, assistant, and none recorded\<close>
  "three_senders =
     \<lparr> title = Some ''Three'', url = Some [], extracted_at = Some [],
       message_count = Some 3,
       messages = Some [plain_message (Some ''user'') ''What is IoC?'',
                        plain_message (Some ''assistant'') ''Inversion of control.'',
                        plain_message None ''Thanks!''] \<rparr>"

fun render :: "node \<Rightarrow> string" where
  \<comment> \<open>the markup of a tree whose text needs no escaping\<close>
  "render (Text s) = s"
| "render (Special s) = s"
| "render (Tag name attrs children) =
     ''<'' @ name @ concat (map (\<lambda>(k, v). '' '' @ k @ ''=\"'' @ v @ ''\"'') attrs) @ ''>''
     @ concat (map render children) @ ''</'' @ name @ ''>''"

definition example_runtime :: runtime where
  \<comment> \<open>no MarkItDown, no parsable time stamp, a fixed clock\<close>
  "example_runtime =
     \<lparr> markitdown = None, to_str = render, fromisoformat = (\<lambda>s. None),
       strptime = (\<lambda>s fmt. None), now = ''2026-01-01T00:00:00'' \<rparr>"

definition example_container :: node where
  \<comment> \<open>a long user query and a four-character model response\<close>
  "example_container =
     Tag ''div'' [(''class'', ''conversation-container''), (''id'', ''c1'')]
       [Tag ''user-query'' []
          [Tag ''p'' [(''class'', ''query-text-line'')] [Text long_answer]],
        Tag ''model-response'' []
          [Tag ''message-content'' []
             [Tag ''div'' [(''class'', ''markdown'')] [Text ''Yes.'']]]]"

definition empty_soup :: node where
  \<comment> \<open>the tree of the empty snapshot\<close>
  "empty_soup = Tag ''[document]'' [] []"

fun first_seen :: "string list \<Rightarrow> string list" where
  \<comment> \<open>the distinct members of a list in the order of their first occurrences\<close>
  "first_seen [] = []"
| "first_seen (x # xs) = x # filter (\<lambda>y. y \<noteq> x) (first_seen xs)"

definition total_keys :: "string list" where
  "total_keys =
     [''total_conversations'', ''total_messages'', ''total_user_messages'',
      ''total_assistant_messages'', ''avg_messages_per_conversation'']"

definition single_message :: "string \<Rightarrow> string \<Rightarrow> conversation" where
  \<comment> \<open>a persisted conversation of one message\<close>
  "single_message sender content =
     \<lparr> title = Some ''One'', url = Some [], extracted_at = Some [],
       message_count = Some 1, messages = Some [plain_message (Some sender) content] \<rparr>"

definition last_seen_listing :: "string list \<Rightarrow> string list" where
  \<comment> \<open>a set listing other than \<open>remdups\<close>\<close>
  "last_seen_listing xs = rev (remdups xs)"

fun collapsed :: "string \<Rightarrow> bool" where
  \<comment> \<open>every whitespace character is a space that no whitespace follows\<close>
  "collapsed [] = True"
| "collapsed (c # cs) =
     ((if isspace c
       then c = CHR '' '' \<and> (case cs of [] \<Rightarrow> True | d # _ \<Rightarrow> \<not> isspace d)
       else True)
      \<and> collapsed cs)"

definition unpadded :: "string \<Rightarrow> bool" where
  \<comment> \<open>no whitespace at either end\<close>
  "unpadded s = (case s of [] \<Rightarrow> True | c # _ \<Rightarrow> \<not> isspace c \<and> \<not> isspace (last s))"

definition indented_code :: string where
  \<comment> \<open>the text between the fences of a three-line code block\<close>
  "indented_code = [CHR 0x0A] @ ''def foo():'' @ [CHR 0x0A] @ ''    pass'' @ [CHR 0x0A]"

definition code_element :: node where
  "code_element =
     Tag ''div'' [(''class'', ''markdown'')] [Text (''```'' @ indented_code @ ''```'')]"

definition short_hinted :: element where
  \<comment> \<open>nine characters of text under an assistant label\<close>
  "short_hinted = Element (Some ''Gemini Ok'') ''<b>Gemini</b> Ok'' None None []"

definition long_user_marked :: element where
  \<comment> \<open>404 characters without a question mark under a user label\<close>
  "long_user_marked =
     Element (Some (''User'' @ long_answer)) (''<b>User</b>'' @ long_answer) None None []"

definition brief_ai_marked :: element where
  \<comment> \<open>twelve characters under an assistant label\<close>
  "brief_ai_marked = Element (Some ''Gemini Done.'') ''<b>Gemini</b> Done.'' None None []"

definition user_query_text :: "node \<Rightarrow> string option" where
  \<comment> \<open>the non-empty text read from the first \<open>user-query\<close> element of a container\<close>
  "user_query_text container =
     (case find_first container (has_name ''user-query'') of
        None \<Rightarrow> None
      | Some user_query \<Rightarrow>
          (case extract_user_message user_query of
             None \<Rightarrow> None
           | Some query_text \<Rightarrow> if query_text = [] then None else Some query_text))"

definition model_response_text :: "runtime \<Rightarrow> node \<Rightarrow> string option" where
  \<comment> \<open>the non-empty text read from the first \<open>model-response\<close> element of a container\<close>
  "model_response_text rt container =
     (case find_first container (has_name ''model-response'') of
        None \<Rightarrow> None
      | Some model_response \<Rightarrow>
          (case extract_model_response rt model_response of
             None \<Rightarrow> None
           | Some response_content \<Rightarrow>
               if response_content = [] then None else Some response_content))"

section \<open>Properties of the selector chain\<close>

lemma try_selectors_find:
  "try_selectors pg sels =
     (case List.find (multiple_matches pg) sels of
        Some selector \<Rightarrow> matches_of pg selector | None \<Rightarrow> [])"
  by (induction sels) (auto simp: multiple_matches_def matches_of_def split: outcome.splits)

lemma found_selector_nonempty:
  assumes "List.find (multiple_matches pg) sels = Some selector"
  shows "matches_of pg selector \<noteq> []"
proof -
  from assms have "multiple_matches pg selector"
    by (auto simp: find_Some_iff)
  then show ?thesis
    by (cases "pg selector") (auto simp: multiple_matches_def matches_of_def)
qed

lemma find_message_elements_find:
  "find_message_elements pg =
     (case List.find (multiple_matches pg) message_selectors of
        Some selector \<Rightarrow> matches_of pg selector
      | None \<Rightarrow> main_content_blocks pg main_selectors)"
  using found_selector_nonempty[of pg message_selectors]
  by (auto simp: find_message_elements_def try_selectors_find Let_def split: option.splits)

lemma map_filter_zip_contents:
  "map md_content (List.map_filter (\<lambda>(i, el). extract_message i el) (zip ns els)) =
     nontrivial_texts (take (length ns) els)"
proof (induction els arbitrary: ns)
  case Nil
  then show ?case by (simp add: nontrivial_texts_def List.map_filter_simps)
next
  case (Cons e es)
  show ?case
  proof (cases ns)
    case Nil
    then show ?thesis by (simp add: nontrivial_texts_def List.map_filter_simps)
  next
    case (Cons n ns')
    then show ?thesis using Cons.IH[of ns']
      by (auto simp: nontrivial_texts_def List.map_filter_simps extract_message_def
               split: option.splits)
  qed
qed

lemma extract_messages_contents:
  "map md_content (extract_messages els) = nontrivial_texts els"
  by (simp add: extract_messages_def map_filter_zip_contents)

lemma cli_find_message_elements_find:
  "cli_find_message_elements pg =
     (case List.find (multiple_matches pg) cli_message_selectors of
        Some selector \<Rightarrow> Returned (matches_of pg selector)
      | None \<Rightarrow>
          (case pg ''main'' of
             Raised \<Rightarrow> Raised
           | Returned [] \<Rightarrow> Returned []
           | Returned (main_element # _) \<Rightarrow> Returned (substantial_divs main_element)))"
  using found_selector_nonempty [of pg cli_message_selectors]
  by (auto simp: cli_find_message_elements_def try_selectors_find Let_def
           split: option.splits)

lemma cli_map_filter_zip_contents:
  "map cm_content (List.map_filter (\<lambda>(i, el). cli_extract_message i el) (zip ns els)) =
     nontrivial_texts (take (length ns) els)"
proof (induction els arbitrary: ns)
  case Nil
  then show ?case by (simp add: nontrivial_texts_def List.map_filter_simps)
next
  case (Cons e es)
  show ?case
  proof (cases ns)
    case Nil
    then show ?thesis by (simp add: nontrivial_texts_def List.map_filter_simps)
  next
    case (Cons n ns')
    then show ?thesis using Cons.IH[of ns']
      by (auto simp: nontrivial_texts_def List.map_filter_simps cli_extract_message_def
               split: option.splits)
  qed
qed

lemma take_min_length: "take (min (length xs) n) xs = take n xs"
  by (cases "length xs \<le> n") (simp_all add: min_def)

lemma cli_extract_conversation_contents:
  "map_outcome (map cm_content) (cli_extract_conversation pg)
     = map_outcome (\<lambda>els. nontrivial_texts (take 50 els)) (cli_find_message_elements pg)"
  by (cases "cli_find_message_elements pg")
     (simp_all add: cli_extract_conversation_def cli_map_filter_zip_contents take_min_length)

text \<open>
  Claim C1, as stated, does not hold.  On \<open>short_first_page\<close> the first selector
  matches two elements that are both below the threshold of 10 characters, and the third
  selector matches two full messages.  The chain stops at the first selector, so the
  extraction is empty although a later selector yields non-trivial fragments.
\<close>

theorem short_matches_block_later_selectors:
  "extract_conversation_content short_first_page = []
   \<and> map md_content (extract_messages (matches_of short_first_page ''.message''))
       = [''What is inversion of control?'', ''Inversion of control is a design principle.'']"
  by code_simp

text \<open>
  Claim C1, amended.  The selectors are tried in priority order and the chain takes the
  matches of the first selector whose query returns more than one element, whatever
  their text length; only when no selector does, the divs of the main content are
  taken.  The extractor then returns, in order, the stripped texts of at least 10
  characters among the elements taken, without going back to a later selector.  The
  command-line extractor does the same with its six selectors, the divs of \<open>main\<close>
  and the first 50 elements.
\<close>

theorem selector_chain_first_multiple_match:
  "try_selectors pg sels =
     (case List.find (multiple_matches pg) sels of
        Some selector \<Rightarrow> matches_of pg selector | None \<Rightarrow> [])
   \<and> find_message_elements pg =
     (case List.find (multiple_matches pg) message_selectors of
        Some selector \<Rightarrow> matches_of pg selector
      | None \<Rightarrow> main_content_blocks pg main_selectors)
   \<and> map md_content (extract_conversation_content pg)
       = nontrivial_texts (find_message_elements pg)
   \<and> cli_find_message_elements pg =
     (case List.find (multiple_matches pg) cli_message_selectors of
        Some selector \<Rightarrow> Returned (matches_of pg selector)
      | None \<Rightarrow>
          (case pg ''main'' of
             Raised \<Rightarrow> Raised
           | Returned [] \<Rightarrow> Returned []
           | Returned (main_element # _) \<Rightarrow> Returned (substantial_divs main_element)))
   \<and> map_outcome (map cm_content) (cli_extract_conversation pg)
       = map_outcome (\<lambda>els. nontrivial_texts (take 50 els)) (cli_find_message_elements pg)"
  using cli_find_message_elements_find [of pg] cli_extract_conversation_contents [of pg]
  by (simp add: try_selectors_find find_message_elements_find [symmetric]
        extract_conversation_content_def extract_messages_contents)

section \<open>Properties of the sender classification\<close>

lemma strip_Nil: "strip [] = []"
  by (simp add: strip_def lstrip_def rstrip_def)

lemma kept_text_nonempty: "10 \<le> length (strip text) \<Longrightarrow> text \<noteq> []"
  by (auto simp: strip_Nil)

lemma extract_message_dropped:
  "text_content el = Some text \<Longrightarrow> length (strip text) < 10 \<Longrightarrow>
   extract_message i el = None \<and> cli_extract_message i el = None"
  by (simp add: extract_message_def cli_extract_message_def)

lemma extract_message_kept_type:
  "text_content el = Some text \<Longrightarrow> 10 \<le> length (strip text) \<Longrightarrow>
   map_option md_type (extract_message i el)
     = Some (message_type_of (inner_html el)
               (case class_attr el of None \<Rightarrow> [] | Some c \<Rightarrow> c) text)
   \<and> map_option md_content (extract_message i el) = Some (strip text)"
  using kept_text_nonempty [of "text"]
  by (simp add: extract_message_def)

lemma cli_extract_message_kept_type:
  "text_content el = Some text \<Longrightarrow> 10 \<le> length (strip text) \<Longrightarrow>
   map_option cm_type (cli_extract_message i el)
     = Some (cli_message_type_of (inner_html el) text)
   \<and> map_option cm_content (cli_extract_message i el) = Some (strip text)"
  using kept_text_nonempty [of "text"]
  by (simp add: cli_extract_message_def)

lemma any_indicator_markup:
  "list_ex (\<lambda>indicator. contains (lower element_html) indicator) indicators
     \<Longrightarrow> any_indicator indicators element_html element_classes"
  by (auto simp: any_indicator_def list_ex_iff)

lemma container_messages_by_element:
  "map (\<lambda>m. (msg_sender m, msg_type m, msg_content m)) (container_messages rt container)
     = (case user_query_text container of
          None \<Rightarrow> []
        | Some query_text \<Rightarrow> [(Some ''user'', Some ''user_message'', Some query_text)])
       @ (case model_response_text rt container of
            None \<Rightarrow> []
          | Some response_content \<Rightarrow>
              [(Some ''assistant'', Some ''assistant_message'', Some response_content)])"
  by (simp add: container_messages_def user_query_text_def model_response_text_def Let_def
           split: option.splits)

text \<open>
  Claim C2, as stated, does not hold.  A fragment of fewer than 10 stripped characters
  never reaches the classification: the loop skips it.  Of the two fragments of 400 and
  of 7 characters only the first becomes a message, of type \<open>ai\<close>; \<open>Thanks!\<close> is
  dropped by both extractors and is given no sender.
\<close>

theorem short_fragment_is_dropped:
  "extract_message 1 (leaf ''Thanks!'') = None
   \<and> cli_extract_message 1 (leaf ''Thanks!'') = None
   \<and> map (\<lambda>m. (md_index m, md_type m, length (md_content m)))
         (extract_messages [leaf long_answer, leaf ''Thanks!'']) = [(0, ''ai'', 400)]"
  by code_simp

text \<open>
  Claim C2, amended.  A fragment without a user or assistant indicator in its markup
  and class names becomes a message only if its stripped content has at least 10
  characters; a fragment without text or with a shorter content is dropped and gets no
  type.  The type of a kept fragment is \<open>user\<close> exactly when the stripped content ends
  with a question mark or is shorter than 100 characters, and \<open>ai\<close> otherwise, in both
  extractors.  In particular 400 characters without a final question mark give \<open>ai\<close>,
  and a fragment of 7 characters gives no message.
\<close>

theorem kept_fragment_fallback_rule:
  assumes "\<not> any_indicator user_indicators (inner_html el)
               (case class_attr el of None \<Rightarrow> [] | Some c \<Rightarrow> c)"
      and "\<not> any_indicator ai_indicators (inner_html el)
               (case class_attr el of None \<Rightarrow> [] | Some c \<Rightarrow> c)"
  shows "(text_content el = None
            \<longrightarrow> extract_message i el = None \<and> cli_extract_message i el = None)
       \<and> (text_content el = Some text \<and> length (strip text) < 10
            \<longrightarrow> extract_message i el = None \<and> cli_extract_message i el = None)
       \<and> (text_content el = Some text \<and> 10 \<le> length (strip text)
            \<longrightarrow> map_option md_type (extract_message i el)
                  = Some (if endswith (strip text) ''?'' \<or> length (strip text) < 100
                          then ''user'' else ''ai'')
                \<and> map_option md_content (extract_message i el) = Some (strip text)
                \<and> map_option cm_type (cli_extract_message i el)
                  = Some (if endswith (strip text) ''?'' \<or> length (strip text) < 100
                          then ''user'' else ''ai'')
                \<and> map_option cm_content (cli_extract_message i el) = Some (strip text))
       \<and> (text_content el = Some text \<and> length (strip text) = 400
            \<and> \<not> endswith (strip text) ''?''
            \<longrightarrow> map_option md_type (extract_message i el) = Some ''ai'')
       \<and> (text_content el = Some text \<and> length (strip text) = 7
            \<longrightarrow> extract_message i el = None)"
proof -
  have u: "\<not> list_ex (\<lambda>indicator. contains (lower (inner_html el)) indicator) user_indicators"
    using assms(1) any_indicator_markup by blast
  have a: "\<not> list_ex (\<lambda>indicator. contains (lower (inner_html el)) indicator) ai_indicators"
    using assms(2) any_indicator_markup by blast
  have t: "message_type_of (inner_html el)
             (case class_attr el of None \<Rightarrow> [] | Some c \<Rightarrow> c) text
           = guess_by_content text"
    using assms by (simp add: message_type_of_def)
  have c: "cli_message_type_of (inner_html el) text = guess_by_content text"
    using u a by (simp add: cli_message_type_of_def)
  have none: "text_content el = None
            \<longrightarrow> extract_message i el = None \<and> cli_extract_message i el = None"
    by (simp add: extract_message_def cli_extract_message_def)
  have short: "text_content el = Some text \<and> length (strip text) < 10
            \<longrightarrow> extract_message i el = None \<and> cli_extract_message i el = None"
    using extract_message_dropped [of el "text" i] by blast
  have kept: "text_content el = Some text \<and> 10 \<le> length (strip text)
            \<longrightarrow> map_option md_type (extract_message i el)
                  = Some (if endswith (strip text) ''?'' \<or> length (strip text) < 100
                          then ''user'' else ''ai'')
                \<and> map_option md_content (extract_message i el) = Some (strip text)
                \<and> map_option cm_type (cli_extract_message i el)
                  = Some (if endswith (strip text) ''?'' \<or> length (strip text) < 100
                          then ''user'' else ''ai'')
                \<and> map_option cm_content (cli_extract_message i el) = Some (strip text)"
    using extract_message_kept_type [of el "text" i] cli_extract_message_kept_type [of el "text" i]
      t c
    by (simp add: guess_by_content_def)
  have long: "text_content el = Some text \<and> length (strip text) = 400
            \<and> \<not> endswith (strip text) ''?''
            \<longrightarrow> map_option md_type (extract_message i el) = Some ''ai''"
  proof
    assume h: "text_content el = Some text \<and> length (strip text) = 400
            \<and> \<not> endswith (strip text) ''?''"
    then have "text_content el = Some text \<and> 10 \<le> length (strip text)" by simp
    with kept have "map_option md_type (extract_message i el)
                  = Some (if endswith (strip text) ''?'' \<or> length (strip text) < 100
                          then ''user'' else ''ai'')" by blast
    with h show "map_option md_type (extract_message i el) = Some ''ai''" by simp
  qed
  have seven: "text_content el = Some text \<and> length (strip text) = 7
            \<longrightarrow> extract_message i el = None"
    using short by simp
  from none short kept long seven show ?thesis by blast
qed

theorem kept_fragment_fallback_rule_witness:
  "\<not> any_indicator user_indicators (inner_html (leaf long_answer))
        (case class_attr (leaf long_answer) of None \<Rightarrow> [] | Some c \<Rightarrow> c)
   \<and> \<not> any_indicator ai_indicators (inner_html (leaf long_answer))
        (case class_attr (leaf long_answer) of None \<Rightarrow> [] | Some c \<Rightarrow> c)
   \<and> text_content (leaf long_answer) = Some long_answer
   \<and> length (strip long_answer) = 400 \<and> \<not> endswith (strip long_answer) ''?''
   \<and> map_option md_type (extract_message 0 (leaf long_answer)) = Some ''ai''
   \<and> \<not> any_indicator user_indicators (inner_html (leaf ''Thanks a lot!''))
        (case class_attr (leaf ''Thanks a lot!'') of None \<Rightarrow> [] | Some c \<Rightarrow> c)
   \<and> \<not> any_indicator ai_indicators (inner_html (leaf ''Thanks a lot!''))
        (case class_attr (leaf ''Thanks a lot!'') of None \<Rightarrow> [] | Some c \<Rightarrow> c)
   \<and> text_content (leaf ''Thanks a lot!'') = Some ''Thanks a lot!''
   \<and> length (strip ''Thanks a lot!'') = 13
   \<and> map_option md_type (extract_message 1 (leaf ''Thanks a lot!'')) = Some ''user''
   \<and> \<not> any_indicator user_indicators (inner_html (leaf ''Thanks!''))
        (case class_attr (leaf ''Thanks!'') of None \<Rightarrow> [] | Some c \<Rightarrow> c)
   \<and> \<not> any_indicator ai_indicators (inner_html (leaf ''Thanks!''))
        (case class_attr (leaf ''Thanks!'') of None \<Rightarrow> [] | Some c \<Rightarrow> c)
   \<and> text_content (leaf ''Thanks!'') = Some ''Thanks!''
   \<and> length (strip ''Thanks!'') = 7
   \<and> extract_message 1 (leaf ''Thanks!'') = None"
proof -
  have u1: "\<not> any_indicator user_indicators (inner_html (leaf long_answer))
        (case class_attr (leaf long_answer) of None \<Rightarrow> [] | Some c \<Rightarrow> c)" by code_simp
  have a1: "\<not> any_indicator ai_indicators (inner_html (leaf long_answer))
        (case class_attr (leaf long_answer) of None \<Rightarrow> [] | Some c \<Rightarrow> c)" by code_simp
  have t1: "text_content (leaf long_answer) = Some long_answer" by (simp add: leaf_def)
  have l1: "length (strip long_answer) = 400" by code_simp
  have q1: "\<not> endswith (strip long_answer) ''?''" by code_simp
  have u2: "\<not> any_indicator user_indicators (inner_html (leaf ''Thanks a lot!''))
        (case class_attr (leaf ''Thanks a lot!'') of None \<Rightarrow> [] | Some c \<Rightarrow> c)" by code_simp
  have a2: "\<not> any_indicator ai_indicators (inner_html (leaf ''Thanks a lot!''))
        (case class_attr (leaf ''Thanks a lot!'') of None \<Rightarrow> [] | Some c \<Rightarrow> c)" by code_simp
  have t2: "text_content (leaf ''Thanks a lot!'') = Some ''Thanks a lot!''"
    by (simp add: leaf_def)
  have l2: "length (strip ''Thanks a lot!'') = 13" by code_simp
  have u3: "\<not> any_indicator user_indicators (inner_html (leaf ''Thanks!''))
        (case class_attr (leaf ''Thanks!'') of None \<Rightarrow> [] | Some c \<Rightarrow> c)" by code_simp
  have a3: "\<not> any_indicator ai_indicators (inner_html (leaf ''Thanks!''))
        (case class_attr (leaf ''Thanks!'') of None \<Rightarrow> [] | Some c \<Rightarrow> c)" by code_simp
  have t3: "text_content (leaf ''Thanks!'') = Some ''Thanks!''" by (simp add: leaf_def)
  have l3: "length (strip ''Thanks!'') = 7" by code_simp
  from kept_fragment_fallback_rule [OF u1 a1, of 0 long_answer] t1 l1 q1
  have r1: "map_option md_type (extract_message 0 (leaf long_answer)) = Some ''ai''"
    by blast
  from kept_fragment_fallback_rule [OF u2 a2, of 1 "''Thanks a lot!''"] t2 l2
  have r2: "map_option md_type (extract_message 1 (leaf ''Thanks a lot!'')) = Some ''user''"
    by simp
  from kept_fragment_fallback_rule [OF u3 a3, of 1 "''Thanks!''"] t3 l3
  have r3: "extract_message 1 (leaf ''Thanks!'') = None"
    by blast
  from u1 a1 t1 l1 q1 r1 u2 a2 t2 l2 r2 u3 a3 t3 l3 r3 show ?thesis by blast
qed

text \<open>
  Claim C3, as stated, does not hold for every fragment.  A fragment of nine characters
  under an assistant label carries an assistant indicator and is not classified by it:
  both extractors drop it at the threshold, before any indicator is looked at.
\<close>

theorem short_hinted_fragment_is_dropped:
  "text_content short_hinted = Some ''Gemini Ok''
   \<and> any_indicator ai_indicators (inner_html short_hinted)
        (case class_attr short_hinted of None \<Rightarrow> [] | Some c \<Rightarrow> c)
   \<and> extract_message 0 short_hinted = None
   \<and> cli_extract_message 0 short_hinted = None"
  by code_simp

text \<open>
  Claim C3, amended.  For every fragment the extractor keeps, that is of at least 10
  stripped characters, the indicators are consulted before the content: with a user
  indicator the type is \<open>user\<close>, with an assistant indicator and no user indicator it
  is \<open>ai\<close>, whatever the length and the last character of the text (the user
  indicators are tried first); a shorter fragment is dropped whether or not it carries
  an indicator.  In the structured extractor the sender follows the element alone: the
  text read from the \<open>user-query\<close> element of a container is a \<open>user\<close> message, the
  text read from its \<open>model-response\<close> element an \<open>assistant\<close> message, and there
  are no others.
\<close>

theorem hints_decide_kept_fragments:
  "(text_content el = Some text \<and> 10 \<le> length (strip text)
      \<and> any_indicator user_indicators (inner_html el)
           (case class_attr el of None \<Rightarrow> [] | Some c \<Rightarrow> c)
      \<longrightarrow> map_option md_type (extract_message i el) = Some ''user'')
   \<and> (text_content el = Some text \<and> 10 \<le> length (strip text)
        \<and> \<not> any_indicator user_indicators (inner_html el)
              (case class_attr el of None \<Rightarrow> [] | Some c \<Rightarrow> c)
        \<and> any_indicator ai_indicators (inner_html el)
              (case class_attr el of None \<Rightarrow> [] | Some c \<Rightarrow> c)
      \<longrightarrow> map_option md_type (extract_message i el) = Some ''ai'')
   \<and> (text_content el = Some text \<and> 10 \<le> length (strip text)
        \<and> list_ex (\<lambda>indicator. contains (lower (inner_html el)) indicator) user_indicators
      \<longrightarrow> map_option cm_type (cli_extract_message i el) = Some ''user'')
   \<and> (text_content el = Some text \<and> 10 \<le> length (strip text)
        \<and> \<not> list_ex (\<lambda>indicator. contains (lower (inner_html el)) indicator) user_indicators
        \<and> list_ex (\<lambda>indicator. contains (lower (inner_html el)) indicator) ai_indicators
      \<longrightarrow> map_option cm_type (cli_extract_message i el) = Some ''ai'')
   \<and> (text_content el = Some text \<and> length (strip text) < 10
      \<longrightarrow> extract_message i el = None \<and> cli_extract_message i el = None)
   \<and> map (\<lambda>m. (msg_sender m, msg_type m, msg_content m)) (container_messages rt container)
       = (case user_query_text container of
            None \<Rightarrow> []
          | Some query_text \<Rightarrow> [(Some ''user'', Some ''user_message'', Some query_text)])
         @ (case model_response_text rt container of
              None \<Rightarrow> []
            | Some response_content \<Rightarrow>
                [(Some ''assistant'', Some ''assistant_message'', Some response_content)])"
proof -
  have p1: "text_content el = Some text \<and> 10 \<le> length (strip text)
      \<and> any_indicator user_indicators (inner_html el)
           (case class_attr el of None \<Rightarrow> [] | Some c \<Rightarrow> c)
      \<longrightarrow> map_option md_type (extract_message i el) = Some ''user''"
    using extract_message_kept_type [of el "text" i]
    by (auto simp: message_type_of_def)
  have p2: "text_content el = Some text \<and> 10 \<le> length (strip text)
        \<and> \<not> any_indicator user_indicators (inner_html el)
              (case class_attr el of None \<Rightarrow> [] | Some c \<Rightarrow> c)
        \<and> any_indicator ai_indicators (inner_html el)
              (case class_attr el of None \<Rightarrow> [] | Some c \<Rightarrow> c)
      \<longrightarrow> map_option md_type (extract_message i el) = Some ''ai''"
    using extract_message_kept_type [of el "text" i]
    by (auto simp: message_type_of_def)
  have c1: "text_content el = Some text \<and> 10 \<le> length (strip text)
        \<and> list_ex (\<lambda>indicator. contains (lower (inner_html el)) indicator) user_indicators
      \<longrightarrow> map_option cm_type (cli_extract_message i el) = Some ''user''"
    using cli_extract_message_kept_type [of el "text" i]
    by (auto simp: cli_message_type_of_def)
  have c2: "text_content el = Some text \<and> 10 \<le> length (strip text)
        \<and> \<not> list_ex (\<lambda>indicator. contains (lower (inner_html el)) indicator) user_indicators
        \<and> list_ex (\<lambda>indicator. contains (lower (inner_html el)) indicator) ai_indicators
      \<longrightarrow> map_option cm_type (cli_extract_message i el) = Some ''ai''"
    using cli_extract_message_kept_type [of el "text" i]
    by (auto simp: cli_message_type_of_def)
  have d: "text_content el = Some text \<and> length (strip text) < 10
      \<longrightarrow> extract_message i el = None \<and> cli_extract_message i el = None"
    using extract_message_dropped [of el "text" i] by blast
  from p1 p2 c1 c2 d container_messages_by_element [of rt container]
  show ?thesis by blast
qed

theorem hints_decide_kept_fragments_witness:
  "text_content long_user_marked = Some (''User'' @ long_answer)
   \<and> 10 \<le> length (strip (''User'' @ long_answer))
   \<and> any_indicator user_indicators (inner_html long_user_marked)
        (case class_attr long_user_marked of None \<Rightarrow> [] | Some c \<Rightarrow> c)
   \<and> guess_by_content (''User'' @ long_answer) = ''ai''
   \<and> map_option md_type (extract_message 0 long_user_marked) = Some ''user''
   \<and> map_option cm_type (cli_extract_message 0 long_user_marked) = Some ''user''
   \<and> text_content brief_ai_marked = Some ''Gemini Done.''
   \<and> 10 \<le> length (strip ''Gemini Done.'')
   \<and> \<not> any_indicator user_indicators (inner_html brief_ai_marked)
        (case class_attr brief_ai_marked of None \<Rightarrow> [] | Some c \<Rightarrow> c)
   \<and> any_indicator ai_indicators (inner_html brief_ai_marked)
        (case class_attr brief_ai_marked of None \<Rightarrow> [] | Some c \<Rightarrow> c)
   \<and> guess_by_content ''Gemini Done.'' = ''user''
   \<and> map_option md_type (extract_message 1 brief_ai_marked) = Some ''ai''
   \<and> map_option cm_type (cli_extract_message 1 brief_ai_marked) = Some ''ai''
   \<and> text_content short_hinted = Some ''Gemini Ok''
   \<and> length (strip ''Gemini Ok'') < 10
   \<and> extract_message 2 short_hinted = None
   \<and> user_query_text example_container = Some long_answer
   \<and> model_response_text example_runtime example_container = Some ''Yes.''
   \<and> map (\<lambda>m. (msg_sender m, msg_type m, msg_content m))
         (container_messages example_runtime example_container)
       = [(Some ''user'', Some ''user_message'', Some long_answer),
          (Some ''assistant'', Some ''assistant_message'', Some ''Yes.'')]"
proof -
  have t1: "text_content long_user_marked = Some (''User'' @ long_answer)"
    by (simp add: long_user_marked_def)
  have l1: "10 \<le> length (strip (''User'' @ long_answer))" by code_simp
  have u1: "any_indicator user_indicators (inner_html long_user_marked)
        (case class_attr long_user_marked of None \<Rightarrow> [] | Some c \<Rightarrow> c)" by code_simp
  have m1: "list_ex (\<lambda>indicator. contains (lower (inner_html long_user_marked)) indicator)
              user_indicators" by code_simp
  have g1: "guess_by_content (''User'' @ long_answer) = ''ai''" by code_simp
  have t2: "text_content brief_ai_marked = Some ''Gemini Done.''"
    by (simp add: brief_ai_marked_def)
  have l2: "10 \<le> length (strip ''Gemini Done.'')" by code_simp
  have u2: "\<not> any_indicator user_indicators (inner_html brief_ai_marked)
        (case class_attr brief_ai_marked of None \<Rightarrow> [] | Some c \<Rightarrow> c)" by code_simp
  have a2: "any_indicator ai_indicators (inner_html brief_ai_marked)
        (case class_attr brief_ai_marked of None \<Rightarrow> [] | Some c \<Rightarrow> c)" by code_simp
  have n2: "\<not> list_ex (\<lambda>indicator. contains (lower (inner_html brief_ai_marked)) indicator)
              user_indicators" by code_simp
  have m2: "list_ex (\<lambda>indicator. contains (lower (inner_html brief_ai_marked)) indicator)
              ai_indicators" by code_simp
  have g2: "guess_by_content ''Gemini Done.'' = ''user''" by code_simp
  have t3: "text_content short_hinted = Some ''Gemini Ok''"
    by (simp add: short_hinted_def)
  have l3: "length (strip ''Gemini Ok'') < 10" by code_simp
  have q: "user_query_text example_container = Some long_answer" by code_simp
  have r: "model_response_text example_runtime example_container = Some ''Yes.''"
    by code_simp
  note A = hints_decide_kept_fragments
             [of long_user_marked "''User'' @ long_answer" 0 example_runtime example_container]
  note B = hints_decide_kept_fragments
             [of brief_ai_marked "''Gemini Done.''" 1 example_runtime example_container]
  note C = hints_decide_kept_fragments
             [of short_hinted "''Gemini Ok''" 2 example_runtime example_container]
  from A t1 l1 u1 have r1: "map_option md_type (extract_message 0 long_user_marked) = Some ''user''"
    by blast
  from A t1 l1 m1 have r1': "map_option cm_type (cli_extract_message 0 long_user_marked) = Some ''user''"
    by blast
  from B t2 l2 u2 a2 have r2: "map_option md_type (extract_message 1 brief_ai_marked) = Some ''ai''"
    by blast
  from B t2 l2 n2 m2 have r2': "map_option cm_type (cli_extract_message 1 brief_ai_marked) = Some ''ai''"
    by blast
  from C t3 l3 have r3: "extract_message 2 short_hinted = None"
    by blast
  from A q r have s: "map (\<lambda>m. (msg_sender m, msg_type m, msg_content m))
         (container_messages example_runtime example_container)
       = [(Some ''user'', Some ''user_message'', Some long_answer),
          (Some ''assistant'', Some ''assistant_message'', Some ''Yes.'')]"
    by simp
  from t1 l1 u1 g1 r1 r1' t2 l2 u2 a2 g2 r2 r2' t3 l3 r3 q r s show ?thesis by blast
qed

section \<open>Properties of the structured extraction\<close>

text \<open>
  Claim C7.  When no element of the snapshot is a conversation container, the parse
  returns the empty list (it has no failing branch) and the record built from it has
  no message and \<open>message_count\<close> 0.  Likewise the selector chain of the page
  extractor yields no message when it finds no element.
\<close>

theorem no_container_no_message:
  assumes "conversation_containers soup = []"
  shows "parse_conversation_structure rt soup = []
       \<and> messages (structured_data rt (parse_conversation_structure rt soup) ttl u) = Some []
       \<and> message_count (structured_data rt (parse_conversation_structure rt soup) ttl u)
           = Some 0
       \<and> (find_message_elements pg = [] \<longrightarrow> extract_conversation_content pg = [])"
  using assms
  by (simp add: parse_conversation_structure_def structured_data_def
        extract_conversation_content_def extract_messages_def)

theorem no_container_no_message_witness:
  "conversation_containers empty_soup = []
   \<and> parse_conversation_structure example_runtime empty_soup = []
   \<and> message_count
        (structured_data example_runtime
           (parse_conversation_structure example_runtime empty_soup) ''Empty'' [])
       = Some 0
   \<and> find_message_elements (\<lambda>selector. Returned []) = []
   \<and> extract_conversation_content (\<lambda>selector. Returned []) = []"
proof -
  have h: "conversation_containers empty_soup = []" by code_simp
  have f: "find_message_elements (\<lambda>selector. Returned []) = []" by code_simp
  from no_container_no_message
         [OF h, of example_runtime "''Empty''" "[]" "\<lambda>selector. Returned []"] h f
  show ?thesis by blast
qed

section \<open>Properties of the analyzer\<close>

lemma analyze_message_counts:
  "total_messages (analyze_message an m) = total_messages an"
  "user_messages (analyze_message an m)
     = user_messages an + (if sender_of m = ''user'' then 1 else 0)"
  "assistant_messages (analyze_message an m)
     = assistant_messages an + (if sender_of m = ''assistant'' then 1 else 0)"
  by (simp_all add: analyze_message_def sender_of_def Let_def)

lemma foldl_analyze_counts:
  "total_messages (foldl analyze_message an ms) = total_messages an
   \<and> user_messages (foldl analyze_message an ms)
       = user_messages an + length (filter (\<lambda>m. sender_of m = ''user'') ms)
   \<and> assistant_messages (foldl analyze_message an ms)
       = assistant_messages an + length (filter (\<lambda>m. sender_of m = ''assistant'') ms)"
  by (induction ms arbitrary: an) (simp_all add: analyze_message_counts)

lemma analyze_conversation_counts:
  "total_messages (analyze_conversation los data) = get (message_count data) 0"
  "user_messages (analyze_conversation los data)
     = length (filter (\<lambda>m. sender_of m = ''user'') (get (messages data) []))"
  "assistant_messages (analyze_conversation los data)
     = length (filter (\<lambda>m. sender_of m = ''assistant'') (get (messages data) []))"
  by (simp_all add: analyze_conversation_def Let_def foldl_analyze_counts initial_analysis_def)

lemma three_way_split:
  "length ms = length (filter (\<lambda>m. f m = a) ms) + length (filter (\<lambda>m. f m = b) ms)
     + length (filter (\<lambda>m. f m \<noteq> a \<and> f m \<noteq> b) ms)" if "a \<noteq> b"
  using that by (induction ms) auto

lemma structured_data_count:
  "get (message_count (structured_data rt msgs ttl u)) 0
     = int (length (get (messages (structured_data rt msgs ttl u)) []))"
  by (simp add: structured_data_def get_def)

text \<open>
  Claim C4.  For a conversation record, whose \<open>message_count\<close> is the length of its
  message list, the total of the analysis is the number of \<open>user\<close> messages plus the
  number of \<open>assistant\<close> messages plus the number of messages with any other or no
  sender.  (The analyzer copies the total from \<open>message_count\<close> and counts the two
  kinds itself; every record the structured extractor persists has
  \<open>message_count\<close> equal to the length of its message list.)
\<close>

theorem message_count_splits_by_sender:
  assumes "get (message_count data) 0 = int (length (get (messages data) []))"
  shows "user_messages (analyze_conversation list_of_set data)
           = length (filter (\<lambda>m. sender_of m = ''user'') (get (messages data) []))
       \<and> assistant_messages (analyze_conversation list_of_set data)
           = length (filter (\<lambda>m. sender_of m = ''assistant'') (get (messages data) []))
       \<and> total_messages (analyze_conversation list_of_set data)
           = int (user_messages (analyze_conversation list_of_set data))
             + int (assistant_messages (analyze_conversation list_of_set data))
             + int (length (filter (\<lambda>m. sender_of m \<noteq> ''user'' \<and> sender_of m \<noteq> ''assistant'')
                              (get (messages data) [])))
       \<and> get (message_count (structured_data rt msgs ttl u)) 0
           = int (length (get (messages (structured_data rt msgs ttl u)) []))"
proof -
  have ne: "''user'' \<noteq> ''assistant''" by simp
  show ?thesis
    using assms three_way_split [OF ne, of "get (messages data) []" sender_of]
    by (simp add: analyze_conversation_counts structured_data_count)
qed

theorem message_count_splits_by_sender_witness:
  "get (message_count three_senders) 0 = int (length (get (messages three_senders) []))
   \<and> total_messages (analyze_conversation remdups three_senders) = 3
   \<and> user_messages (analyze_conversation remdups three_senders) = 1
   \<and> assistant_messages (analyze_conversation remdups three_senders) = 1
   \<and> length (filter (\<lambda>m. sender_of m \<noteq> ''user'' \<and> sender_of m \<noteq> ''assistant'')
               (get (messages three_senders) [])) = 1"
proof -
  have h: "get (message_count three_senders) 0 = int (length (get (messages three_senders) []))"
    by code_simp
  have u: "length (filter (\<lambda>m. sender_of m = ''user'') (get (messages three_senders) [])) = 1"
    by code_simp
  have a: "length (filter (\<lambda>m. sender_of m = ''assistant'') (get (messages three_senders) [])) = 1"
    by code_simp
  have k: "length (filter (\<lambda>m. sender_of m \<noteq> ''user'' \<and> sender_of m \<noteq> ''assistant'')
               (get (messages three_senders) [])) = 1"
    by code_simp
  from message_count_splits_by_sender [OF h, of remdups] h u a k
  show ?thesis by simp
qed

lemma set_listing_empty: "set_listing los \<Longrightarrow> los [] = []"
  by (metis set_listing_def set_empty)

lemma set_listing_length:
  assumes "set_listing l1" and "set_listing l2"
  shows "length (l1 xs) = length (l2 xs)"
proof -
  have "length (l1 xs) = card (set xs)"
    using assms(1) by (metis set_listing_def distinct_card)
  moreover have "length (l2 xs) = card (set xs)"
    using assms(2) by (metis set_listing_def distinct_card)
  ultimately show ?thesis by simp
qed

lemma set_listing_remdups: "set_listing remdups"
  by (simp add: set_listing_def)

lemma set_listing_last_seen: "set_listing last_seen_listing"
  by (simp add: set_listing_def last_seen_listing_def)

text \<open>
  Claim C6, as stated, does not hold.  The analysis of a conversation without messages
  carries two insights, because the technical-term rule and the length rule have a
  branch for zero, and it has no median, maximum and minimum at all.
\<close>

theorem empty_conversation_has_insights:
  "key_insights (analyze_conversation remdups empty_conversation)
     = [''General or non-technical conversation'',
        ''Concise conversation with brief exchanges'']
   \<and> median_message_length (analyze_conversation remdups empty_conversation) = None
   \<and> max_message_length (analyze_conversation remdups empty_conversation) = None
   \<and> min_message_length (analyze_conversation remdups empty_conversation) = None"
  by code_simp

text \<open>
  Claim C6, amended.  Analyzing a conversation record with zero messages returns an
  analysis (the analyzer has no failing branch) whose counts and average are 0, whose
  median, maximum and minimum are absent, whose term, topic, length and flow
  collections are empty, and whose insights are exactly the two sentences for a
  non-technical and a concise conversation.
\<close>

theorem empty_conversation_analysis:
  assumes "get (messages data) [] = []"
      and "get (message_count data) 0 = 0"
      and "set_listing list_of_set"
  shows "key_insights (analyze_conversation list_of_set data)
           = [''General or non-technical conversation'',
              ''Concise conversation with brief exchanges'']
       \<and> total_messages (analyze_conversation list_of_set data) = 0
       \<and> user_messages (analyze_conversation list_of_set data) = 0
       \<and> assistant_messages (analyze_conversation list_of_set data) = 0
       \<and> code_blocks (analyze_conversation list_of_set data) = 0
       \<and> questions_asked (analyze_conversation list_of_set data) = 0
       \<and> avg_message_length (analyze_conversation list_of_set data) = 0
       \<and> median_message_length (analyze_conversation list_of_set data) = None
       \<and> max_message_length (analyze_conversation list_of_set data) = None
       \<and> min_message_length (analyze_conversation list_of_set data) = None
       \<and> message_lengths (analyze_conversation list_of_set data) = []
       \<and> conversation_flow (analyze_conversation list_of_set data) = []
       \<and> technical_terms (analyze_conversation list_of_set data) = []
       \<and> topics_mentioned (analyze_conversation list_of_set data) = []
       \<and> unique_technical_terms (analyze_conversation list_of_set data) = []
       \<and> unique_topics (analyze_conversation list_of_set data) = []"
proof -
  have "analyze_conversation list_of_set data
           = (initial_analysis data)
               \<lparr> key_insights := [''General or non-technical conversation'',
                                  ''Concise conversation with brief exchanges''] \<rparr>"
    using assms set_listing_empty [OF assms(3)]
    by (simp add: analyze_conversation_def initial_analysis_def generate_insights_def Let_def)
  then show ?thesis
    using assms(2) by (simp add: initial_analysis_def)
qed

theorem empty_conversation_analysis_witness:
  "get (messages empty_conversation) [] = []
   \<and> get (message_count empty_conversation) 0 = 0
   \<and> set_listing remdups
   \<and> key_insights (analyze_conversation remdups empty_conversation)
       = [''General or non-technical conversation'',
          ''Concise conversation with brief exchanges'']
   \<and> total_messages (analyze_conversation remdups empty_conversation) = 0
   \<and> unique_technical_terms (analyze_conversation remdups empty_conversation) = []"
proof -
  have m: "get (messages empty_conversation) [] = []" by code_simp
  have c: "get (message_count empty_conversation) 0 = 0" by code_simp
  from empty_conversation_analysis [OF m c set_listing_remdups] m c set_listing_remdups
  show ?thesis by blast
qed

section \<open>Properties of the corpus summary\<close>

text \<open>
  Claim C5, as stated, does not hold.  For the empty list the report is the empty
  dictionary: it has no count that could be zero and no table that could be empty.
\<close>

theorem empty_report_lacks_counts:
  "map_of (generate_summary_report []) ''total_conversations'' = None
   \<and> map_of (generate_summary_report []) ''total_messages'' = None
   \<and> map_of (generate_summary_report []) ''most_common_technical_terms'' = None
   \<and> map_of (generate_summary_report []) ''total_messages'' \<noteq> Some (PyInt 0)"
  by (simp add: generate_summary_report_def)

text \<open>
  Claim C5, amended.  Aggregating the empty list returns a defined value without
  failing, namely the empty dictionary, which has no field.
\<close>

theorem empty_report_has_no_fields:
  "generate_summary_report [] = []
   \<and> (\<forall>key. map_of (generate_summary_report []) key = None)"
  by (simp add: generate_summary_report_def)

lemma counter_add_keys:
  "map fst (counter_add x c) = (if x \<in> set (map fst c) then map fst c else map fst c @ [x])"
  by (induction c) (auto split: if_splits)

lemma counter_add_lookup:
  "map_of (counter_add x c) k =
     (if k = x then Some (case map_of c x of None \<Rightarrow> 1 | Some n \<Rightarrow> n + 1) else map_of c k)"
  by (induction c) auto

lemma foldl_counter_lookup:
  "map_of (foldl (\<lambda>c x. counter_add x c) c0 xs) k =
     (case map_of c0 k of
        None \<Rightarrow> if k \<in> set xs then Some (count_list xs k) else None
      | Some n \<Rightarrow> Some (n + count_list xs k))"
proof (induction xs arbitrary: c0)
  case Nil
  then show ?case by (simp split: option.splits)
next
  case (Cons x xs)
  show ?case
    by (simp add: Cons.IH counter_add_lookup split: option.splits)
qed

lemma Counter_lookup:
  "map_of (Counter xs) k = (if k \<in> set xs then Some (count_list xs k) else None)"
  by (simp add: Counter_def foldl_counter_lookup)

lemma Counter_append_commute: "map_of (Counter (xs @ ys)) = map_of (Counter (ys @ xs))"
  by (rule ext) (auto simp: Counter_lookup)

lemma foldl_counter_keys:
  "map fst (foldl (\<lambda>c x. counter_add x c) c0 xs) =
     map fst c0 @ filter (\<lambda>x. x \<notin> set (map fst c0)) (first_seen xs)"
proof (induction xs arbitrary: c0)
  case Nil
  then show ?case by simp
next
  case (Cons x xs)
  show ?case
  proof (cases "x \<in> set (map fst c0)")
    case True
    have "filter (\<lambda>y. y \<notin> set (map fst c0)) (filter (\<lambda>y. y \<noteq> x) (first_seen xs))
            = filter (\<lambda>y. y \<notin> set (map fst c0)) (first_seen xs)"
      using True by (auto intro!: filter_cong)
    with True show ?thesis
      by (simp add: Cons.IH counter_add_keys)
  next
    case False
    have "filter (\<lambda>y. y \<notin> set (map fst c0) \<and> y \<noteq> x) (first_seen xs)
            = filter (\<lambda>y. y \<noteq> x \<and> y \<notin> set (map fst c0)) (first_seen xs)"
      by (auto intro!: filter_cong)
    with False show ?thesis
      by (simp add: Cons.IH counter_add_keys)
  qed
qed

lemma Counter_keys: "map fst (Counter xs) = first_seen xs"
  by (simp add: Counter_def foldl_counter_keys)

lemma most_common_descending: "sorted_wrt (\<lambda>p q. snd q \<le> snd p) (most_common n counts)"
proof -
  have "sorted (map (\<lambda>(x, k). - int k) (sort_key (\<lambda>(x, k). - int k) counts))"
    by (rule sorted_sort_key)
  then have "sorted_wrt (\<lambda>p q. snd q \<le> snd p) (sort_key (\<lambda>(x, k). - int k) counts)"
    by (simp add: sorted_map sorted_wrt_iff_nth_less case_prod_beta)
  then show ?thesis
    unfolding most_common_def by (rule sorted_wrt_take)
qed

lemma most_common_take:
  "most_common n counts = take n (most_common (length counts) counts)"
  by (simp add: most_common_def)

lemma most_common_stable:
  "filter (\<lambda>p. snd p = k) (most_common (length counts) counts)
     = filter (\<lambda>p. snd p = k) counts"
proof -
  have "filter (\<lambda>y. (\<lambda>(x, k). - int k) y = - int k) (sort_key (\<lambda>(x, k). - int k) counts)
          = filter (\<lambda>y. (\<lambda>(x, k). - int k) y = - int k) counts"
    by (rule sort_key_stable)
  then show ?thesis
    by (simp add: most_common_def case_prod_beta)
qed

lemma totals_commute:
  "map (map_of (generate_summary_report [a1, a2])) total_keys
     = map (map_of (generate_summary_report [a2, a1])) total_keys"
  by (simp add: generate_summary_report_def total_keys_def Let_def add.commute)

text \<open>
  Claim C8, as stated, does not hold.  The report lists only the five most common
  insights.  For the analyses of a user message of six question marks and of an
  assistant message of one inline code span, six insights occur, four of them once;
  which of the tied ones are listed depends on the order of the two analyses, not only
  the order in which they are listed.
\<close>

theorem truncated_ranking_depends_on_order:
  "map_of (generate_summary_report
             [analyze_conversation remdups (single_message ''user'' ''??????''),
              analyze_conversation remdups (single_message ''assistant'' ''`x`'')])
          ''most_common_insights''
     = Some (PyRanking
         [(''General or non-technical conversation'', 2),
          (''Concise conversation with brief exchanges'', 2),
          (''User-driven conversation with many questions'', 1),
          (''Exploratory conversation with many questions'', 1),
          (''Assistant-heavy conversation with detailed responses'', 1)])
   \<and> map_of (generate_summary_report
             [analyze_conversation remdups (single_message ''assistant'' ''`x`''),
              analyze_conversation remdups (single_message ''user'' ''??????'')])
          ''most_common_insights''
     = Some (PyRanking
         [(''General or non-technical conversation'', 2),
          (''Concise conversation with brief exchanges'', 2),
          (''Assistant-heavy conversation with detailed responses'', 1),
          (''Contains code examples and technical details'', 1),
          (''User-driven conversation with many questions'', 1)])"
  by code_simp

text \<open>
  Claim C8, amended.  For two analyses in either order the term, topic and insight
  counters hold the same counts and the summed totals (and their average) are the
  same.  Each table of the report is the first 10, 10 or 5 entries of its counter
  ranked by descending count, entries of equal count in the order of the counter, which
  is first-seen order.  So the order of the analyses decides the order among equal
  counts and, where more entries exist than are listed, which of them are listed.
\<close>

theorem aggregation_order:
  "map_of (term_frequency [a1, a2]) = map_of (term_frequency [a2, a1])
   \<and> map_of (topic_frequency [a1, a2]) = map_of (topic_frequency [a2, a1])
   \<and> map_of (insight_frequency [a1, a2]) = map_of (insight_frequency [a2, a1])
   \<and> map (map_of (generate_summary_report [a1, a2])) total_keys
       = map (map_of (generate_summary_report [a2, a1])) total_keys
   \<and> map_of (generate_summary_report [a1, a2]) ''most_common_technical_terms''
       = Some (PyRanking (take 10 (most_common (length (term_frequency [a1, a2]))
                                      (term_frequency [a1, a2]))))
   \<and> map_of (generate_summary_report [a1, a2]) ''most_common_topics''
       = Some (PyRanking (take 10 (most_common (length (topic_frequency [a1, a2]))
                                      (topic_frequency [a1, a2]))))
   \<and> map_of (generate_summary_report [a1, a2]) ''most_common_insights''
       = Some (PyRanking (take 5 (most_common (length (insight_frequency [a1, a2]))
                                     (insight_frequency [a1, a2]))))
   \<and> sorted_wrt (\<lambda>p q. snd q \<le> snd p) (most_common n counts)
   \<and> filter (\<lambda>p. snd p = k) (most_common (length counts) counts)
       = filter (\<lambda>p. snd p = k) counts
   \<and> map fst (Counter xs) = first_seen xs"
proof -
  have t: "map_of (term_frequency [a1, a2]) = map_of (term_frequency [a2, a1])"
    using Counter_append_commute [of "unique_technical_terms a1" "unique_technical_terms a2"]
    by (simp add: term_frequency_def)
  have p: "map_of (topic_frequency [a1, a2]) = map_of (topic_frequency [a2, a1])"
    using Counter_append_commute [of "unique_topics a1" "unique_topics a2"]
    by (simp add: topic_frequency_def)
  have i: "map_of (insight_frequency [a1, a2]) = map_of (insight_frequency [a2, a1])"
    using Counter_append_commute [of "key_insights a1" "key_insights a2"]
    by (simp add: insight_frequency_def)
  have r1: "map_of (generate_summary_report [a1, a2]) ''most_common_technical_terms''
       = Some (PyRanking (take 10 (most_common (length (term_frequency [a1, a2]))
                                      (term_frequency [a1, a2]))))"
    by (simp add: generate_summary_report_def Let_def most_common_take [symmetric])
  have r2: "map_of (generate_summary_report [a1, a2]) ''most_common_topics''
       = Some (PyRanking (take 10 (most_common (length (topic_frequency [a1, a2]))
                                      (topic_frequency [a1, a2]))))"
    by (simp add: generate_summary_report_def Let_def most_common_take [symmetric])
  have r3: "map_of (generate_summary_report [a1, a2]) ''most_common_insights''
       = Some (PyRanking (take 5 (most_common (length (insight_frequency [a1, a2]))
                                     (insight_frequency [a1, a2]))))"
    by (simp add: generate_summary_report_def Let_def most_common_take [symmetric])
  from t p i totals_commute r1 r2 r3 most_common_descending most_common_stable Counter_keys
  show ?thesis by blast
qed

section \<open>The analyzer as a function of its input\<close>

lemma foldl_analyze_topics:
  "topics_mentioned (foldl analyze_message an ms)
     = topics_mentioned an @ concat (map (\<lambda>m. extract_topics (get (msg_content m) [])) ms)"
  by (induction ms arbitrary: an) (simp_all add: analyze_message_def Let_def)

lemma analyze_unique_topics:
  "unique_topics (analyze_conversation los data)
     = los (concat (map (\<lambda>m. extract_topics (get (msg_content m) []))
                      (get (messages data) [])))"
  by (simp add: analyze_conversation_def Let_def foldl_analyze_topics initial_analysis_def)

text \<open>
  Claim C9, as stated, does not hold.  The analysis lists the unique terms and topics
  by \<open>list(set(...))\<close>, whose order is that of the interpreter's string hashes and
  changes from one interpreter process to the next.  Under two admissible listings the
  analyses of the same one-message conversation differ.
\<close>

theorem set_order_changes_analysis:
  "set_listing remdups \<and> set_listing last_seen_listing
   \<and> unique_topics
        (analyze_conversation remdups (single_message ''user'' ''Docker and Python''))
       = [''deployment'', ''backend'']
   \<and> unique_topics
        (analyze_conversation last_seen_listing (single_message ''user'' ''Docker and Python''))
       = [''backend'', ''deployment'']
   \<and> analyze_conversation remdups (single_message ''user'' ''Docker and Python'')
       \<noteq> analyze_conversation last_seen_listing (single_message ''user'' ''Docker and Python'')"
proof -
  have t: "extract_topics ''Docker and Python'' = [''deployment'', ''backend'']"
    by code_simp
  have a: "unique_topics
        (analyze_conversation remdups (single_message ''user'' ''Docker and Python''))
       = [''deployment'', ''backend'']"
    by (simp add: analyze_unique_topics single_message_def plain_message_def get_def t)
  have b: "unique_topics
        (analyze_conversation last_seen_listing (single_message ''user'' ''Docker and Python''))
       = [''backend'', ''deployment'']"
    by (simp add: analyze_unique_topics single_message_def plain_message_def get_def t
          last_seen_listing_def)
  have "[''deployment'', ''backend''] \<noteq> [''backend'', ''deployment'']" by simp
  with a b have c: "analyze_conversation remdups (single_message ''user'' ''Docker and Python'')
       \<noteq> analyze_conversation last_seen_listing (single_message ''user'' ''Docker and Python'')"
    by metis
  from a b c set_listing_remdups set_listing_last_seen show ?thesis by blast
qed

text \<open>
  Claim C9, amended.  The analyzer keeps no state between runs: its output is a
  function of the conversation record and of the interpreter's set iteration order.
  Under the same order two runs give the same analysis; under two different orders
  they agree on every field but the arrangement of \<open>unique_technical_terms\<close> and
  \<open>unique_topics\<close>, which hold the same distinct members.
\<close>

theorem analysis_up_to_set_order:
  assumes "set_listing l1" and "set_listing l2"
  shows "analyze_conversation l2 data
           = (analyze_conversation l1 data)
               \<lparr> unique_technical_terms := l2 (technical_terms (analyze_conversation l1 data)),
                 unique_topics := l2 (topics_mentioned (analyze_conversation l1 data)) \<rparr>
       \<and> set (unique_technical_terms (analyze_conversation l2 data))
           = set (unique_technical_terms (analyze_conversation l1 data))
       \<and> set (unique_topics (analyze_conversation l2 data))
           = set (unique_topics (analyze_conversation l1 data))
       \<and> distinct (unique_technical_terms (analyze_conversation l1 data))
       \<and> distinct (unique_topics (analyze_conversation l1 data))
       \<and> (l1 = l2 \<longrightarrow> analyze_conversation l2 data = analyze_conversation l1 data)"
proof -
  have len: "\<And>xs. length (l2 xs) = length (l1 xs)"
    using set_listing_length [OF assms(2) assms(1)] .
  have sets: "\<And>xs. set (l1 xs) = set xs \<and> set (l2 xs) = set xs
                   \<and> distinct (l1 xs) \<and> distinct (l2 xs)"
    using assms by (simp add: set_listing_def)
  have eq: "analyze_conversation l2 data
           = (analyze_conversation l1 data)
               \<lparr> unique_technical_terms := l2 (technical_terms (analyze_conversation l1 data)),
                 unique_topics := l2 (topics_mentioned (analyze_conversation l1 data)) \<rparr>"
    using len
    by (simp add: analyze_conversation_def Let_def generate_insights_def)
  have s1: "set (unique_technical_terms (analyze_conversation l2 data))
           = set (unique_technical_terms (analyze_conversation l1 data))"
    using sets by (simp add: analyze_conversation_def Let_def)
  have s2: "set (unique_topics (analyze_conversation l2 data))
           = set (unique_topics (analyze_conversation l1 data))"
    using sets by (simp add: analyze_conversation_def Let_def)
  have d1: "distinct (unique_technical_terms (analyze_conversation l1 data))"
    using sets by (simp add: analyze_conversation_def Let_def)
  have d2: "distinct (unique_topics (analyze_conversation l1 data))"
    using sets by (simp add: analyze_conversation_def Let_def)
  from eq s1 s2 d1 d2 show ?thesis by blast
qed

theorem analysis_up_to_set_order_witness:
  "set_listing remdups \<and> set_listing last_seen_listing
   \<and> set (unique_technical_terms
        (analyze_conversation last_seen_listing (single_message ''user'' ''Docker and Python'')))
     = set (unique_technical_terms
        (analyze_conversation remdups (single_message ''user'' ''Docker and Python'')))
   \<and> key_insights
        (analyze_conversation last_seen_listing (single_message ''user'' ''Docker and Python''))
     = key_insights
        (analyze_conversation remdups (single_message ''user'' ''Docker and Python''))"
proof -
  let ?d = "single_message ''user'' ''Docker and Python''"
  from analysis_up_to_set_order [OF set_listing_remdups set_listing_last_seen, of ?d]
  have eq: "analyze_conversation last_seen_listing ?d
           = (analyze_conversation remdups ?d)
               \<lparr> unique_technical_terms :=
                   last_seen_listing (technical_terms (analyze_conversation remdups ?d)),
                 unique_topics :=
                   last_seen_listing (topics_mentioned (analyze_conversation remdups ?d)) \<rparr>"
    and s: "set (unique_technical_terms (analyze_conversation last_seen_listing ?d))
           = set (unique_technical_terms (analyze_conversation remdups ?d))"
    by blast+
  have "key_insights (analyze_conversation last_seen_listing ?d)
          = key_insights (analyze_conversation remdups ?d)"
    by (subst eq) simp
  with s set_listing_remdups set_listing_last_seen show ?thesis by blast
qed

section \<open>Properties of the content normalizer\<close>

lemma sub_scan_ws_prev:
  "sub_scan match_whitespace r p k s = sub_scan match_whitespace r p' k s"
  by (induction s arbitrary: k p p') (auto simp: match_whitespace_def)

lemma sub_scan_skip:
  "k \<le> length s \<Longrightarrow>
   sub_scan match_whitespace r p k s = sub_scan match_whitespace r None 0 (drop k s)"
proof (induction s arbitrary: k p)
  case Nil
  then show ?case by simp
next
  case (Cons c cs)
  show ?case
  proof (cases k)
    case 0
    then show ?thesis using sub_scan_ws_prev [of r p 0 "c # cs" None] by simp
  next
    case (Suc j)
    then show ?thesis using Cons by simp
  qed
qed

lemma collapse_Nil: "re_sub match_whitespace r [] = []"
  by (simp add: re_sub_def)

lemma collapse_Cons:
  "re_sub match_whitespace r (c # cs) =
     (if isspace c then r @ re_sub match_whitespace r (dropWhile isspace cs)
      else c # re_sub match_whitespace r cs)"
proof (cases "isspace c")
  case True
  have "sub_scan match_whitespace r (Some c) (length (takeWhile isspace cs)) cs
          = sub_scan match_whitespace r None 0 (drop (length (takeWhile isspace cs)) cs)"
    by (rule sub_scan_skip) (rule length_takeWhile_le)
  then have "sub_scan match_whitespace r (Some c) (length (takeWhile isspace cs)) cs
               = sub_scan match_whitespace r None 0 (dropWhile isspace cs)"
    by (simp only: dropWhile_eq_drop [symmetric])
  with True show ?thesis
    by (simp add: re_sub_def match_whitespace_def)
next
  case False
  then show ?thesis
    using sub_scan_ws_prev [of r "Some c" 0 cs None]
    by (simp add: re_sub_def match_whitespace_def)
qed

lemma collapse_before_nonspace:
  "\<not> isspace x \<Longrightarrow>
   re_sub match_whitespace r (a @ x # t)
     = re_sub match_whitespace r a @ re_sub match_whitespace r (x # t)"
proof (induction "length a" arbitrary: a rule: less_induct)
  case less
  show ?case
  proof (cases a)
    case Nil
    then show ?thesis by (simp add: collapse_Nil)
  next
    case (Cons c cs)
    show ?thesis
    proof (cases "isspace c")
      case True
      have d: "dropWhile isspace (cs @ x # t) = dropWhile isspace cs @ x # t"
        using less.prems by (simp add: dropWhile_append)
      have "length (dropWhile isspace cs) < length a"
        using Cons length_dropWhile_le [of isspace cs] by simp
      from less.hyps [OF this less.prems] True Cons d show ?thesis
        by (simp add: collapse_Cons)
    next
      case False
      have "length cs < length a" using Cons by simp
      from less.hyps [OF this less.prems] False Cons show ?thesis
        by (simp add: collapse_Cons)
    qed
  qed
qed

lemma collapse_keeps_collapsed:
  "collapsed f \<Longrightarrow> f = [] \<or> \<not> isspace (last f) \<Longrightarrow>
   re_sub match_whitespace '' '' (f @ b) = f @ re_sub match_whitespace '' '' b"
proof (induction f)
  case Nil
  then show ?case by simp
next
  case (Cons c cs)
  show ?case
  proof (cases "isspace c")
    case True
    with Cons.prems obtain d ds where cs: "cs = d # ds" and d: "\<not> isspace d" and c: "c = CHR '' ''"
      by (cases cs) auto
    from Cons.prems cs have "collapsed cs" "cs = [] \<or> \<not> isspace (last cs)" by auto
    from Cons.IH [OF this] True cs d c show ?thesis
      by (simp add: collapse_Cons)
  next
    case False
    from Cons.prems have "collapsed cs" "cs = [] \<or> \<not> isspace (last cs)"
      by (auto split: if_splits)
    from Cons.IH [OF this] False show ?thesis
      by (simp add: collapse_Cons)
  qed
qed

lemma collapsed_collapse: "collapsed (re_sub match_whitespace '' '' s)"
proof (induction "length s" arbitrary: s rule: less_induct)
  case less
  show ?case
  proof (cases s)
    case Nil
    then show ?thesis by (simp add: collapse_Nil)
  next
    case (Cons c cs)
    show ?thesis
    proof (cases "isspace c")
      case True
      have l: "length (dropWhile isspace cs) < length s"
        using Cons length_dropWhile_le [of isspace cs] by simp
      have h: "collapsed (re_sub match_whitespace '' '' (dropWhile isspace cs))"
        using less.hyps [OF l] .
      have n: "case re_sub match_whitespace '' '' (dropWhile isspace cs) of
                 [] \<Rightarrow> True | d # _ \<Rightarrow> \<not> isspace d"
      proof (cases "dropWhile isspace cs")
        case Nil
        then show ?thesis by (simp add: collapse_Nil del: dropWhile_eq_Nil_conv)
      next
        case (Cons d ds)
        then have "\<not> isspace d" using hd_dropWhile [of isspace cs] by simp
        with Cons show ?thesis by (simp add: collapse_Cons)
      qed
      from True Cons h n show ?thesis by (simp add: collapse_Cons)
    next
      case False
      have "length cs < length s" using Cons by simp
      from less.hyps [OF this] False Cons show ?thesis by (simp add: collapse_Cons)
    qed
  qed
qed

lemma collapsed_append2: "collapsed (a @ b) \<Longrightarrow> collapsed b"
  by (induction a) auto

lemma collapsed_append1: "collapsed (a @ b) \<Longrightarrow> collapsed a"
proof (induction a)
  case Nil
  then show ?case by simp
next
  case (Cons c cs)
  then show ?case by (cases cs) (auto split: if_splits list.splits)
qed

lemma collapsed_dropWhile: "collapsed s \<Longrightarrow> collapsed (dropWhile P s)"
  using collapsed_append2 [of "takeWhile P s" "dropWhile P s"] by simp

lemma collapsed_rev_dropWhile_rev: "collapsed s \<Longrightarrow> collapsed (rev (dropWhile P (rev s)))"
proof -
  assume c: "collapsed s"
  have "rev (rev s) = rev (takeWhile P (rev s) @ dropWhile P (rev s))"
    by simp
  then have "s = rev (dropWhile P (rev s)) @ rev (takeWhile P (rev s))"
    by (simp only: rev_append rev_rev_ident)
  with c have "collapsed (rev (dropWhile P (rev s)) @ rev (takeWhile P (rev s)))"
    by simp
  then show ?thesis by (rule collapsed_append1)
qed

lemma collapsed_strip: "collapsed s \<Longrightarrow> collapsed (strip s)"
  by (simp add: strip_def lstrip_def rstrip_def collapsed_dropWhile collapsed_rev_dropWhile_rev)

lemma unpadded_strip: "unpadded (strip s)"
proof (cases "strip s")
  case Nil
  then show ?thesis by (simp add: unpadded_def)
next
  case (Cons c cs)
  let ?l = "dropWhile isspace s"
  let ?r = "dropWhile isspace (rev ?l)"
  have st: "strip s = rev ?r" by (simp add: strip_def lstrip_def rstrip_def)
  with Cons have rne: "?r \<noteq> []" by auto
  then have lastc: "\<not> isspace (hd ?r)" by (rule hd_dropWhile)
  have "last (strip s) = hd ?r" using st rne by (simp add: last_rev)
  with lastc have a: "\<not> isspace (last (strip s))" by simp
  have lne: "?l \<noteq> []"
  proof
    assume "?l = []"
    then have "?r = []" by (simp only: rev.simps dropWhile.simps)
    with rne show False by simp
  qed
  then have hl: "\<not> isspace (hd ?l)" by (rule hd_dropWhile)
  have "rev (rev ?l) = rev (takeWhile isspace (rev ?l) @ ?r)" by simp
  then have "?l = rev ?r @ rev (takeWhile isspace (rev ?l))"
    by (simp only: rev_append rev_rev_ident)
  then have "hd ?l = hd (rev ?r @ rev (takeWhile isspace (rev ?l)))" by simp
  also have "\<dots> = hd (rev ?r)" using rne by (simp only: hd_append2 rev_is_Nil_conv not_False_eq_True)
  finally have "hd ?l = hd (rev ?r)" .
  with hl st have b: "\<not> isspace (hd (strip s))" by simp
  from a b Cons show ?thesis by (simp add: unpadded_def)
qed

lemma strip_keeps_inner:
  assumes "f \<noteq> []" and "\<not> isspace (hd f)" and "\<not> isspace (last f)"
  shows "sublist f (strip (a @ f @ b))"
proof -
  from assms obtain x t where f: "f = x # t" by (cases f) auto
  from assms obtain y u where f': "f = u @ [y]" by (cases f rule: rev_cases) auto
  have x: "\<not> isspace x" using assms f by simp
  have y: "\<not> isspace y" using assms f' by simp
  have l: "dropWhile isspace (a @ f @ b) = dropWhile isspace a @ f @ b"
    using x f by (simp add: dropWhile_append)
  have "rev (dropWhile isspace a @ f @ b) = rev b @ y # rev u @ rev (dropWhile isspace a)"
    using f' by simp
  then have "dropWhile isspace (rev (dropWhile isspace a @ f @ b))
               = dropWhile isspace (rev b) @ y # rev u @ rev (dropWhile isspace a)"
    using y by (simp add: dropWhile_append)
  then have "strip (a @ f @ b)
               = dropWhile isspace a @ f @ rev (dropWhile isspace (rev b))"
    using l f' by (simp add: strip_def lstrip_def rstrip_def)
  then show ?thesis by simp
qed

lemma remove_tags_plain_scan:
  "CHR ''<'' \<notin> set s \<Longrightarrow> sub_scan (match_enclosed (CHR ''<'') (CHR ''>'')) [] p 0 s = s"
  by (induction s arbitrary: p) (auto simp: match_enclosed_def)

lemma remove_tags_plain: "CHR ''<'' \<notin> set s \<Longrightarrow> remove_tags s = s"
  by (simp add: remove_tags_def re_sub_def remove_tags_plain_scan)

lemma html_to_text_steps:
  "html_to_text content = strip (re_sub match_whitespace '' '' (remove_tags content))"
  by (simp add: html_to_text_def)

lemma html_to_text_keeps:
  assumes "remove_tags content = a @ f @ b"
      and "f \<noteq> []" and "\<not> isspace (hd f)" and "\<not> isspace (last f)" and "collapsed f"
  shows "sublist f (html_to_text content)"
proof -
  from assms obtain x t where f: "f = x # t" by (cases f) auto
  have x: "\<not> isspace x" using assms f by simp
  have "re_sub match_whitespace '' '' (a @ f @ b)
          = re_sub match_whitespace '' '' a @ re_sub match_whitespace '' '' (f @ b)"
    using collapse_before_nonspace [OF x, of "'' ''" a "t @ b"] f by simp
  also have "re_sub match_whitespace '' '' (f @ b) = f @ re_sub match_whitespace '' '' b"
    using assms by (simp add: collapse_keeps_collapsed)
  finally show ?thesis
    using strip_keeps_inner [OF assms(2) assms(3) assms(4)] assms(1)
    by (simp add: html_to_text_steps)
qed

text \<open>
  Claim C10, as stated, does not hold.  Without MarkItDown the normalizer collapses
  the line breaks and the indentation inside a fenced code block like any other
  whitespace, so the text between the fences does not survive verbatim.
\<close>

theorem code_whitespace_collapsed:
  "clean_response_content example_runtime code_element = ''``` def foo(): pass ```''
   \<and> html_to_markdown example_runtime code_element = ''``` def foo(): pass ```''
   \<and> \<not> sublist indented_code (html_to_markdown example_runtime code_element)"
  by code_simp

text \<open>
  Claim C10, amended.  When MarkItDown is absent or fails, the normalizer removes the
  tags, replaces every run of whitespace, inside fenced code blocks as well, by one
  space and strips the result; a piece of the tag-free text that begins and ends with a
  non-space character and whose whitespace consists of single spaces, such as
  \<open>```def foo(): pass```\<close>, is kept verbatim.  When MarkItDown succeeds, the result is
  its conversion, stripped.
\<close>

theorem fallback_normalizer:
  "(markitdown rt = None \<longrightarrow> html_to_markdown rt el = html_to_text (to_str rt el))
   \<and> (\<forall>convert. markitdown rt = Some convert \<longrightarrow>
         html_to_markdown rt el =
           (case convert (''<html><body>'' @ to_str rt el @ ''</body></html>'') of
              Some converted \<Rightarrow> strip converted
            | None \<Rightarrow> html_to_text (to_str rt el)))
   \<and> html_to_text content = strip (re_sub match_whitespace '' '' (remove_tags content))
   \<and> collapsed (html_to_text content)
   \<and> unpadded (html_to_text content)
   \<and> (remove_tags content = a @ f @ b \<and> f \<noteq> [] \<and> \<not> isspace (hd f)
        \<and> \<not> isspace (last f) \<and> collapsed f
        \<longrightarrow> sublist f (html_to_text content))
   \<and> (CHR ''<'' \<notin> set content \<longrightarrow> remove_tags content = content)"
proof -
  have m: "markitdown rt = None \<longrightarrow> html_to_markdown rt el = html_to_text (to_str rt el)"
    by (simp add: html_to_markdown_def)
  have k: "\<forall>convert. markitdown rt = Some convert \<longrightarrow>
         html_to_markdown rt el =
           (case convert (''<html><body>'' @ to_str rt el @ ''</body></html>'') of
              Some converted \<Rightarrow> strip converted
            | None \<Rightarrow> html_to_text (to_str rt el))"
    by (simp add: html_to_markdown_def)
  have c: "collapsed (html_to_text content)"
    by (simp add: html_to_text_steps collapsed_strip collapsed_collapse)
  have u: "unpadded (html_to_text content)"
    by (simp add: html_to_text_steps unpadded_strip)
  from m k c u html_to_text_steps html_to_text_keeps remove_tags_plain
  show ?thesis by blast
qed

theorem fallback_normalizer_witness:
  "markitdown example_runtime = None
   \<and> remove_tags ''<p>Run ```def foo(): pass``` now</p>''
       = ''Run '' @ ''```def foo(): pass```'' @ '' now''
   \<and> collapsed ''```def foo(): pass```''
   \<and> sublist ''```def foo(): pass```'' (html_to_text ''<p>Run ```def foo(): pass``` now</p>'')
   \<and> html_to_markdown example_runtime code_element
       = html_to_text (to_str example_runtime code_element)"
proof -
  let ?f = "''```def foo(): pass```''"
  let ?c = "''<p>Run ```def foo(): pass``` now</p>''"
  have n: "markitdown example_runtime = None" by code_simp
  have r: "remove_tags ?c = ''Run '' @ ?f @ '' now''" by code_simp
  have e: "?f \<noteq> []" by simp
  have h: "\<not> isspace (hd ?f)" by code_simp
  have l: "\<not> isspace (last ?f)" by code_simp
  have c: "collapsed ?f" by code_simp
  from fallback_normalizer [of example_runtime code_element ?c "''Run ''" ?f "'' now''"]
    n r e h l c
  show ?thesis by blast
qed

end
